theory Spec2Isabelle
  imports Main "HOL-Library.Word"
begin

section \<open>Pinned BPF maps (bpf/maps.go)\<close>

text \<open>
  A shallow embedding of \<^verbatim>\<open>bpf/maps.go\<close>. Each Go function of the file is a HOL
  function of the same name (the method \<^verbatim>\<open>RepinningEnabled\<close>, whose name the field of
  \<^verbatim>\<open>MapContext\<close> takes, is \<open>PinnedMap_RepinningEnabled\<close>). What the file reaches outside
  itself (the \<^verbatim>\<open>os\<close> calls, the \<^verbatim>\<open>bpftool\<close> processes, the BPF system calls,
  \<^verbatim>\<open>encoding/json\<close>) is a record of interface functions over a world \<open>'w\<close> that every
  call threads through: a function that calls out takes the world and returns the world
  after its calls. A method with a pointer receiver takes the \<^verbatim>\<open>PinnedMap\<close> and returns
  the updated one. A panic is the left summand of the result, an error return an
  \<open>error option\<close>, \<open>None\<close> for nil. Logging is left out.
  Go's \<^verbatim>\<open>int\<close> is \<open>int\<close>: the file compares and prints integers and never computes
  with them. A \<^verbatim>\<open>byte\<close> is an \<open>8 word\<close>; a \<^verbatim>\<open>string\<close> and a \<^verbatim>\<open>[]byte\<close> of
  text are \<open>string\<close>.
\<close>

subsection \<open>Values\<close>

type_synonym byte = "8 word"

text \<open>
  \<^verbatim>\<open>MapFD\<close> is declared outside this file; the file stores it and resets it to \<open>0\<close>.
\<close>

type_synonym MapFD = nat

text \<open>
  \<^verbatim>\<open>mapEntry\<close> is declared outside this file; the file reads its fields \<^verbatim>\<open>Key\<close> and
  \<^verbatim>\<open>Value\<close> and hands each to \<^verbatim>\<open>hexStringsToBytes\<close>, which takes strings.
\<close>

record mapEntry =
  Key :: "string list"
  Value :: "string list"

subsection \<open>Errors and panics\<close>

text \<open>
  The error values the file meets and builds. \<open>Errno\<close>, \<open>PathError\<close> and \<open>OtherError\<close>
  come from the operating system and the libraries; \<open>ExitError\<close> is
  \<^verbatim>\<open>*exec.ExitError\<close> with the standard error text that \<^verbatim>\<open>Output\<close> captured. The
  others are the errors the file itself constructs, one constructor for each
  \<^verbatim>\<open>errors.Wrap\<close>, \<^verbatim>\<open>errors.WithMessagef\<close> and \<^verbatim>\<open>errors.Errorf\<close> site, holding the
  arguments of the format.
\<close>

datatype error =
    ErrNotExist
  | Errno nat
  | PathError string string error
  | ExitError string
  | OtherError string
  | Wrapped error string
  | WithMessage error string
  | UnrecognizedMapType string
  | CannotParseJson error string
  | FailedParsingKey mapEntry error
  | FailedParsingVal mapEntry error
  | FailedToDump string error string
  | InvalidByte string

datatype panic = Panic string | NilPointerDereference

definition ENOENT :: nat where
  "ENOENT = 2"

text \<open>
  \<^verbatim>\<open>os.IsNotExist\<close>: it looks under one \<^verbatim>\<open>*PathError\<close> and accepts
  \<^verbatim>\<open>os.ErrNotExist\<close> and the error number \<^verbatim>\<open>ENOENT\<close>. It does not look under the
  wrappers of \<^verbatim>\<open>github.com/pkg/errors\<close>.
\<close>

fun underlyingError :: "error \<Rightarrow> error" where
  "underlyingError (PathError op path e) = e"
| "underlyingError e = e"

definition IsNotExist :: "error \<Rightarrow> bool" where
  "IsNotExist err =
     (case underlyingError err of
        ErrNotExist \<Rightarrow> True
      | Errno n \<Rightarrow> n = ENOENT
      | _ \<Rightarrow> False)"

text \<open>\<^verbatim>\<open>errors.Wrap\<close> returns nil when the error it is given is nil.\<close>

definition errors_Wrap :: "error option \<Rightarrow> string \<Rightarrow> error option" where
  "errors_Wrap err message = (case err of None \<Rightarrow> None | Some e \<Rightarrow> Some (Wrapped e message))"

subsection \<open>Printing integers, searching strings\<close>

text \<open>
  \<^verbatim>\<open>%d\<close>, \<^verbatim>\<open>fmt.Sprint\<close> of an integer and \<^verbatim>\<open>strconv.FormatInt(_, 10)\<close> all print
  the decimal digits, most significant first, after a minus sign when negative.
\<close>

definition digitChar :: "nat \<Rightarrow> char" where
  "digitChar d = ''0123456789'' ! d"

fun natDigits :: "nat \<Rightarrow> string" where
  "natDigits n = (if n < 10 then [digitChar n] else natDigits (n div 10) @ [digitChar (n mod 10)])"

declare natDigits.simps [simp del]

definition FormatInt :: "int \<Rightarrow> string" where
  "FormatInt i = (if i < 0 then CHR ''-'' # natDigits (nat (- i)) else natDigits (nat i))"

text \<open>Reading decimal digits back: the value of a digit string, most significant first.\<close>

definition isDigit :: "char \<Rightarrow> bool" where
  "isDigit c = (48 \<le> (of_char c :: nat) \<and> (of_char c :: nat) \<le> 57)"

definition digitValue :: "char \<Rightarrow> nat" where
  "digitValue c = of_char c - 48"

definition decimalValue :: "string \<Rightarrow> nat" where
  "decimalValue s = foldl (\<lambda>acc c. 10 * acc + digitValue c) 0 s"

text \<open>\<^verbatim>\<open>strings.Contains(s, substr)\<close>.\<close>

fun HasPrefix :: "string \<Rightarrow> string \<Rightarrow> bool" where
  "HasPrefix s [] = True"
| "HasPrefix [] (c # cs) = False"
| "HasPrefix (d # ds) (c # cs) = (d = c \<and> HasPrefix ds cs)"

fun Contains :: "string \<Rightarrow> string \<Rightarrow> bool" where
  "Contains [] substr = (substr = [])"
| "Contains (c # cs) substr = (HasPrefix (c # cs) substr \<or> Contains cs substr)"

subsection \<open>Map parameters and versioned names\<close>

record MapParameters =
  Filename :: string
  Type :: string
  KeySize :: int
  ValueSize :: int
  MaxEntries :: int
  Name :: string
  Flags :: int
  Version :: int

definition versionedStr :: "int \<Rightarrow> string \<Rightarrow> string" where
  "versionedStr ver str = (if ver \<le> 1 then str else str @ FormatInt ver)"

definition versionedName :: "'a MapParameters_scheme \<Rightarrow> string" where
  "versionedName mp = versionedStr (Version mp) (MapParameters.Name mp)"

definition versionedFilename :: "'a MapParameters_scheme \<Rightarrow> string" where
  "versionedFilename mp = versionedStr (Version mp) (Filename mp)"

subsection \<open>The pinned map\<close>

record MapContext =
  RepinningEnabled :: bool

text \<open>
  \<^verbatim>\<open>PinnedMap\<close> embeds \<^verbatim>\<open>MapParameters\<close>: the record extends it. The field \<^verbatim>\<open>context\<close>
  is \<open>mapContext\<close> here; it is a pointer, \<open>None\<close> when nil.
\<close>

record PinnedMap = MapParameters +
  mapContext :: "MapContext option"
  fdLoaded :: bool
  fd :: MapFD
  perCPU :: bool

text \<open>\<^verbatim>\<open>unix.BPF_OBJ_NAME_LEN\<close>, of \<^verbatim>\<open>golang.org/x/sys/unix\<close>.\<close>

definition BPF_OBJ_NAME_LEN :: nat where
  "BPF_OBJ_NAME_LEN = 16"

definition NewPinnedMap :: "MapContext option \<Rightarrow> MapParameters \<Rightarrow> panic + PinnedMap" where
  "NewPinnedMap c params =
     (if length (versionedName params) \<ge> BPF_OBJ_NAME_LEN
      then Inl (Panic ''Bug: BPF map name too long'')
      else Inr \<lparr>Filename = Filename params, Type = Type params, KeySize = KeySize params,
                ValueSize = ValueSize params, MaxEntries = MaxEntries params,
                Name = MapParameters.Name params, Flags = Flags params,
                Version = Version params,
                mapContext = c, fdLoaded = False, fd = 0,
                perCPU = Contains (Type params) ''percpu''\<rparr>)"

definition GetName :: "PinnedMap \<Rightarrow> string" where
  "GetName b = versionedName b"

definition MapFD :: "PinnedMap \<Rightarrow> panic + MapFD" where
  "MapFD b =
     (if \<not> fdLoaded b then Inl (Panic ''MapFD() called without first calling EnsureExists()'')
      else Inr (fd b))"

definition Path :: "PinnedMap \<Rightarrow> string" where
  "Path b = versionedFilename b"

definition PinnedMap_RepinningEnabled :: "PinnedMap \<Rightarrow> bool" where
  "PinnedMap_RepinningEnabled b =
     (case mapContext b of None \<Rightarrow> False | Some c \<Rightarrow> RepinningEnabled c)"

subsection \<open>What the file calls outside itself\<close>

text \<open>
  Each interface takes the world and returns its Go results with the world after the
  call. A process started with \<^verbatim>\<open>exec.Command(prog, args...)\<close> is named by its argument
  vector, \<open>prog # args\<close>; \<open>cmd_Output\<close>, \<open>cmd_CombinedOutput\<close> and \<open>cmd_Run\<close> are the three
  ways the file runs one. \<open>json_Unmarshal_mapEntries\<close> and
  \<open>json_Unmarshal_bpftoolMapMeta\<close> are \<^verbatim>\<open>json.Unmarshal\<close> into a \<^verbatim>\<open>[]mapEntry\<close> and a
  \<^verbatim>\<open>[]bpftoolMapMeta\<close>. \<open>MaybeMountBPFfs\<close>, \<open>GetMapFDByPin\<close>, \<open>UpdateMapEntry\<close>,
  \<open>GetMapEntry\<close>, \<open>MapFD_Close\<close> and \<open>hexStringsToBytes\<close> are functions of the package
  that other files define.
\<close>

record bpftoolMapMeta =
  ID :: int
  Name :: string

record 'w sys =
  MaybeMountBPFfs :: "'w \<Rightarrow> (bool \<times> error option) \<times> 'w"
  os_MkdirAll :: "string \<Rightarrow> nat \<Rightarrow> 'w \<Rightarrow> error option \<times> 'w"
  os_Stat :: "string \<Rightarrow> 'w \<Rightarrow> error option \<times> 'w"
  GetMapFDByPin :: "string \<Rightarrow> 'w \<Rightarrow> (MapFD \<times> error option) \<times> 'w"
  UpdateMapEntry :: "MapFD \<Rightarrow> byte list \<Rightarrow> byte list \<Rightarrow> 'w \<Rightarrow> error option \<times> 'w"
  GetMapEntry :: "MapFD \<Rightarrow> byte list \<Rightarrow> int \<Rightarrow> 'w \<Rightarrow> (byte list \<times> error option) \<times> 'w"
  MapFD_Close :: "MapFD \<Rightarrow> 'w \<Rightarrow> error option \<times> 'w"
  cmd_Output :: "string list \<Rightarrow> 'w \<Rightarrow> (string \<times> error option) \<times> 'w"
  cmd_CombinedOutput :: "string list \<Rightarrow> 'w \<Rightarrow> (string \<times> error option) \<times> 'w"
  cmd_Run :: "string list \<Rightarrow> 'w \<Rightarrow> error option \<times> 'w"
  json_Unmarshal_mapEntries :: "string \<Rightarrow> error + mapEntry list"
  json_Unmarshal_bpftoolMapMeta :: "string \<Rightarrow> error + bpftoolMapMeta list"
  hexStringsToBytes :: "string list \<Rightarrow> error + byte list"

definition Close :: "'w sys \<Rightarrow> PinnedMap \<Rightarrow> 'w \<Rightarrow> error option \<times> PinnedMap \<times> 'w" where
  "Close env b w =
     (case MapFD_Close env (fd b) w of
        (err, w') \<Rightarrow> (err, b\<lparr>fdLoaded := False, fd := 0\<rparr>, w'))"

subsection \<open>Dumping and iterating\<close>

text \<open>
  \<^verbatim>\<open>DumpMapCmd\<close> takes any implementation of the \<^verbatim>\<open>Map\<close> interface and recognises
  \<^verbatim>\<open>*PinnedMap\<close>; another implementation is known here by the name of its type only.
\<close>

datatype Map = PinnedMapPtr PinnedMap | OtherMap string

definition DumpMapCmd :: "Map \<Rightarrow> error + string list" where
  "DumpMapCmd m =
     (case m of
        PinnedMapPtr pm \<Rightarrow>
          Inr [''bpftool'', ''--json'', ''--pretty'', ''map'', ''dump'', ''pinned'',
               versionedFilename pm]
      | OtherMap t \<Rightarrow> Inl (UnrecognizedMapType t))"

text \<open>
  The visitor \<^verbatim>\<open>MapIter\<close> is a Go closure called for its effect: here it transforms a
  state \<open>'s\<close> of its own.
\<close>

type_synonym 's MapIter = "byte list \<Rightarrow> byte list \<Rightarrow> 's \<Rightarrow> 's"

text \<open>The \<^verbatim>\<open>for _, me := range mp\<close> loop of \<^verbatim>\<open>IterMapCmdOutput\<close>.\<close>

fun iterEntries :: "'w sys \<Rightarrow> 's MapIter \<Rightarrow> mapEntry list \<Rightarrow> 's \<Rightarrow> error option \<times> 's" where
  "iterEntries env f [] s = (None, s)"
| "iterEntries env f (me # mp) s =
     (case hexStringsToBytes env (Key me) of
        Inl err \<Rightarrow> (Some (FailedParsingKey me err), s)
      | Inr k \<Rightarrow>
          (case hexStringsToBytes env (Value me) of
             Inl err \<Rightarrow> (Some (FailedParsingVal me err), s)
           | Inr v \<Rightarrow> iterEntries env f mp (f k v s)))"

definition IterMapCmdOutput :: "'w sys \<Rightarrow> string \<Rightarrow> 's MapIter \<Rightarrow> 's \<Rightarrow> error option \<times> 's" where
  "IterMapCmdOutput env output f s =
     (case json_Unmarshal_mapEntries env output of
        Inl err \<Rightarrow> (Some (CannotParseJson err output), s)
      | Inr mp \<Rightarrow> iterEntries env f mp s)"

text \<open>
  \<^verbatim>\<open>Iter\<close>. \<^verbatim>\<open>printCommand\<close> only prints the command and is left out.
\<close>

definition Iter :: "'w sys \<Rightarrow> PinnedMap \<Rightarrow> 's MapIter \<Rightarrow> 's \<Rightarrow> 'w \<Rightarrow> error option \<times> 's \<times> 'w" where
  "Iter env b f s w =
     (case DumpMapCmd (PinnedMapPtr b) of
        Inl err \<Rightarrow> (Some err, s, w)
      | Inr cmd \<Rightarrow>
          (case cmd_Output env cmd w of
             ((output, Some err), w') \<Rightarrow>
               (Some (FailedToDump (versionedFilename b) err output), s, w')
           | ((output, None), w') \<Rightarrow>
               (case IterMapCmdOutput env output f s of
                  (Some err, s') \<Rightarrow>
                    (Some (WithMessage err (''map '' @ versionedFilename b)), s', w')
                | (None, s') \<Rightarrow> (None, s', w'))))"

subsection \<open>Entry operations\<close>

definition Update ::
  "'w sys \<Rightarrow> PinnedMap \<Rightarrow> byte list \<Rightarrow> byte list \<Rightarrow> 'w \<Rightarrow> (panic + error option) \<times> 'w" where
  "Update env b k v w =
     (if perCPU b then (Inl (Panic ''Per-CPU operations not implemented''), w)
      else (case UpdateMapEntry env (fd b) k v w of (err, w') \<Rightarrow> (Inr err, w')))"

definition Get ::
  "'w sys \<Rightarrow> PinnedMap \<Rightarrow> byte list \<Rightarrow> 'w \<Rightarrow> (panic + byte list \<times> error option) \<times> 'w" where
  "Get env b k w =
     (if perCPU b then (Inl (Panic ''Per-CPU operations not implemented''), w)
      else (case GetMapEntry env (fd b) k (ValueSize b) w of (r, w') \<Rightarrow> (Inr r, w')))"

fun appendBytes :: "string list \<Rightarrow> byte list \<Rightarrow> string list" where
  "appendBytes strings [] = strings"
| "appendBytes strings (b # bytes) = appendBytes (strings @ [FormatInt (uint b)]) bytes"

definition Delete :: "'w sys \<Rightarrow> PinnedMap \<Rightarrow> byte list \<Rightarrow> 'w \<Rightarrow> error option \<times> 'w" where
  "Delete env b k w =
     (let args = appendBytes [''map'', ''delete'', ''pinned'', versionedFilename b, ''key''] k
      in case cmd_Output env (''bpftool'' # args) w of
           ((out, None), w') \<Rightarrow> (None, w')
         | ((out, Some err), w') \<Rightarrow>
             (case err of
                ExitError stderr \<Rightarrow>
                  if Contains stderr ''delete failed: No such file or directory''
                  then (Some ErrNotExist, w')
                  else (Some err, w')
              | _ \<Rightarrow> (Some err, w')))"

subsection \<open>Repinning and ensuring existence\<close>

text \<open>The \<^verbatim>\<open>for _, m := range maps\<close> loop of \<^verbatim>\<open>RepinMap\<close>.\<close>

fun repinFirst :: "'w sys \<Rightarrow> string \<Rightarrow> string \<Rightarrow> bpftoolMapMeta list \<Rightarrow> 'w \<Rightarrow> error option \<times> 'w" where
  "repinFirst env name filename [] w = (Some ErrNotExist, w)"
| "repinFirst env name filename (m # maps) w =
     (if bpftoolMapMeta.Name m = name
      then (case cmd_Run env [''bpftool'', ''map'', ''pin'', ''id'', FormatInt (ID m), filename] w of
              (err, w') \<Rightarrow> (errors_Wrap err ''bpftool failed to repin map'', w'))
      else repinFirst env name filename maps w)"

definition RepinMap :: "'w sys \<Rightarrow> string \<Rightarrow> string \<Rightarrow> 'w \<Rightarrow> error option \<times> 'w" where
  "RepinMap env name filename w =
     (case cmd_Output env [''bpftool'', ''map'', ''list'', ''-j''] w of
        ((out, Some err), w1) \<Rightarrow> (errors_Wrap (Some err) ''bpftool map list failed'', w1)
      | ((out, None), w1) \<Rightarrow>
          (case json_Unmarshal_bpftoolMapMeta env out of
             Inl err \<Rightarrow> (errors_Wrap (Some err) ''bpftool returned bad JSON'', w1)
           | Inr maps \<Rightarrow> repinFirst env name filename maps w1))"

text \<open>
  \<^verbatim>\<open>EnsureExists\<close> in three parts. \<open>statOrRepin\<close> is lines 253 to 266: \<open>Inl r\<close> when the
  function returns \<open>r\<close> there, \<open>Inr err\<close> when control goes on with the variable
  \<^verbatim>\<open>err\<close> holding \<open>err\<close>. Line 259 reads \<^verbatim>\<open>b.context.RepinningEnabled\<close> through the
  pointer with no nil check. \<open>openPin\<close> is the code that stands at lines 270 to 276
  and again at lines 293 to 299: the descriptor is stored whatever the error, the
  flag is set on success only. \<open>createMap\<close> is lines 280 to 292.
\<close>

definition statOrRepin ::
  "'w sys \<Rightarrow> PinnedMap \<Rightarrow> 'w \<Rightarrow> ((panic + error option) + error option) \<times> 'w" where
  "statOrRepin env b w =
     (case os_Stat env (versionedFilename b) w of
        (None, w1) \<Rightarrow> (Inr None, w1)
      | (Some err, w1) \<Rightarrow>
          if \<not> IsNotExist err then (Inl (Inr (Some err)), w1)
          else (case mapContext b of
                  None \<Rightarrow> (Inl (Inl NilPointerDereference), w1)
                | Some c \<Rightarrow>
                    if RepinningEnabled c
                    then (case RepinMap env (versionedName b) (versionedFilename b) w1 of
                            (None, w2) \<Rightarrow> (Inr None, w2)
                          | (Some err', w2) \<Rightarrow>
                              if \<not> IsNotExist err' then (Inl (Inr (Some err')), w2)
                              else (Inr (Some err'), w2))
                    else (Inr (Some err), w1)))"

definition openPin :: "'w sys \<Rightarrow> PinnedMap \<Rightarrow> 'w \<Rightarrow> error option \<times> PinnedMap \<times> 'w" where
  "openPin env b w =
     (case GetMapFDByPin env (versionedFilename b) w of
        ((d, None), w') \<Rightarrow> (None, b\<lparr>fd := d, fdLoaded := True\<rparr>, w')
      | ((d, Some err), w') \<Rightarrow> (Some err, b\<lparr>fd := d\<rparr>, w'))"

definition createArgs :: "PinnedMap \<Rightarrow> string list" where
  "createArgs b =
     [''bpftool'', ''map'', ''create'', versionedFilename b,
      ''type'', Type b,
      ''key'', FormatInt (KeySize b),
      ''value'', FormatInt (ValueSize b),
      ''entries'', FormatInt (MaxEntries b),
      ''name'', versionedName b,
      ''flags'', FormatInt (Flags b)]"

definition createMap :: "'w sys \<Rightarrow> PinnedMap \<Rightarrow> 'w \<Rightarrow> error option \<times> 'w" where
  "createMap env b w =
     (case cmd_CombinedOutput env (createArgs b) w of ((out, err), w') \<Rightarrow> (err, w'))"

definition EnsureExists ::
  "'w sys \<Rightarrow> PinnedMap \<Rightarrow> 'w \<Rightarrow> (panic + error option) \<times> PinnedMap \<times> 'w" where
  "EnsureExists env b w =
     (if fdLoaded b then (Inr None, b, w)
      else
        (case MaybeMountBPFfs env w of
           ((mounted, Some err), w1) \<Rightarrow> (Inr (Some err), b, w1)
         | ((mounted, None), w1) \<Rightarrow>
             (case os_MkdirAll env ''/sys/fs/bpf/tc/globals'' 448 w1 of
                (Some err, w2) \<Rightarrow> (Inr (Some err), b, w2)
              | (None, w2) \<Rightarrow>
                  (case statOrRepin env b w2 of
                     (Inl r, w3) \<Rightarrow> (r, b, w3)
                   | (Inr None, w3) \<Rightarrow>
                       (case openPin env b w3 of (err, b', w4) \<Rightarrow> (Inr err, b', w4))
                   | (Inr (Some notFound), w3) \<Rightarrow>
                       (case createMap env b w3 of
                          (Some err, w4) \<Rightarrow> (Inr (Some err), b, w4)
                        | (None, w4) \<Rightarrow>
                            (case openPin env b w4 of
                               (err, b', w5) \<Rightarrow> (Inr err, b', w5)))))))"

subsection \<open>Recording the calls\<close>

text \<open>
  To say which interfaces a function calls, and in which order, the world is paired with
  the list of the calls made so far: \<open>traced env\<close> behaves as \<open>env\<close> and appends each
  call to the list. The functions of the file are not changed.
\<close>

datatype runMode = ModeOutput | ModeCombinedOutput | ModeRun

datatype call =
    CallMaybeMountBPFfs
  | CallMkdirAll string nat
  | CallStat string
  | CallGetMapFDByPin string
  | CallUpdateMapEntry MapFD "byte list" "byte list"
  | CallGetMapEntry MapFD "byte list" int
  | CallClose MapFD
  | CallCommand runMode "string list"

definition traced :: "'w sys \<Rightarrow> ('w \<times> call list) sys" where
  "traced env =
     \<lparr>MaybeMountBPFfs = (\<lambda>(w, tr).
        case MaybeMountBPFfs env w of (r, w') \<Rightarrow> (r, (w', tr @ [CallMaybeMountBPFfs]))),
      os_MkdirAll = (\<lambda>path perm (w, tr).
        case os_MkdirAll env path perm w of (r, w') \<Rightarrow> (r, (w', tr @ [CallMkdirAll path perm]))),
      os_Stat = (\<lambda>path (w, tr).
        case os_Stat env path w of (r, w') \<Rightarrow> (r, (w', tr @ [CallStat path]))),
      GetMapFDByPin = (\<lambda>path (w, tr).
        case GetMapFDByPin env path w of (r, w') \<Rightarrow> (r, (w', tr @ [CallGetMapFDByPin path]))),
      UpdateMapEntry = (\<lambda>d k v (w, tr).
        case UpdateMapEntry env d k v w of (r, w') \<Rightarrow> (r, (w', tr @ [CallUpdateMapEntry d k v]))),
      GetMapEntry = (\<lambda>d k n (w, tr).
        case GetMapEntry env d k n w of (r, w') \<Rightarrow> (r, (w', tr @ [CallGetMapEntry d k n]))),
      MapFD_Close = (\<lambda>d (w, tr).
        case MapFD_Close env d w of (r, w') \<Rightarrow> (r, (w', tr @ [CallClose d]))),
      cmd_Output = (\<lambda>argv (w, tr).
        case cmd_Output env argv w of
          (r, w') \<Rightarrow> (r, (w', tr @ [CallCommand ModeOutput argv]))),
      cmd_CombinedOutput = (\<lambda>argv (w, tr).
        case cmd_CombinedOutput env argv w of
          (r, w') \<Rightarrow> (r, (w', tr @ [CallCommand ModeCombinedOutput argv]))),
      cmd_Run = (\<lambda>argv (w, tr).
        case cmd_Run env argv w of (r, w') \<Rightarrow> (r, (w', tr @ [CallCommand ModeRun argv]))),
      json_Unmarshal_mapEntries = json_Unmarshal_mapEntries env,
      json_Unmarshal_bpftoolMapMeta = json_Unmarshal_bpftoolMapMeta env,
      hexStringsToBytes = hexStringsToBytes env\<rparr>"

text \<open>A call of the map-creation interface: a \<^verbatim>\<open>bpftool map create\<close> process.\<close>

fun isCreateCall :: "call \<Rightarrow> bool" where
  "isCreateCall (CallCommand mode argv) = (take 3 argv = [''bpftool'', ''map'', ''create''])"
| "isCreateCall c = False"

subsection \<open>The byte decoder of the dump\<close>

text \<open>
  Modelled from the spec: \<^verbatim>\<open>hexStringsToBytes\<close> is called by \<^verbatim>\<open>IterMapCmdOutput\<close> and
  defined in another file of the package. The spec has each field of a dump record be an
  ordered sequence of decimal-string byte values, decoded from an array of textual byte
  values into raw bytes: each string is read as a decimal number that fits a byte, in
  order, and the first string that is not one fails the whole field.
\<close>

definition parseByte_spec :: "string \<Rightarrow> error + byte" where
  "parseByte_spec s =
     (if s \<noteq> [] \<and> list_all isDigit s \<and> decimalValue s \<le> 255
      then Inr (of_nat (decimalValue s))
      else Inl (InvalidByte s))"

text \<open>
  Modelled from the spec: the decoder of a whole field (\<^verbatim>\<open>hexStringsToBytes\<close> itself is
  not in the sources), each textual byte value decoded in order.
\<close>

fun hexStringsToBytes_spec :: "string list \<Rightarrow> error + byte list" where
  "hexStringsToBytes_spec [] = Inr []"
| "hexStringsToBytes_spec (s # ss) =
     (case parseByte_spec s of
        Inl err \<Rightarrow> Inl err
      | Inr b \<Rightarrow>
          (case hexStringsToBytes_spec ss of
             Inl err \<Rightarrow> Inl err
           | Inr bs \<Rightarrow> Inr (b # bs)))"

subsection \<open>A concrete system for the examples\<close>

text \<open>
  The examples run the functions against \<open>exampleSys\<close>, whose world counts the calls
  made. In it nothing is pinned yet: \<^verbatim>\<open>os.Stat\<close> reports \<^verbatim>\<open>ENOENT\<close>; every process
  exits with success; the map listing is \<open>listingDocument\<close>, one map \<open>cali_v2\<close> with
  id 7; the dump is \<open>dumpDocument\<close>, one record; opening a pin gives descriptor 5. Its
  JSON decoders read these two documents and reject every other text. An example that
  needs another answer overrides the field.
\<close>

definition listingDocument :: string where
  \<open>listingDocument = ''[{"id":7,"name":"cali_v2"}]''\<close>

definition dumpDocument :: string where
  \<open>dumpDocument = ''[{"key":["1","2"],"value":["255"]}]''\<close>

definition exampleSys :: "nat sys" where
  "exampleSys =
     \<lparr>MaybeMountBPFfs = (\<lambda>w. ((True, None), Suc w)),
      os_MkdirAll = (\<lambda>path perm w. (None, Suc w)),
      os_Stat = (\<lambda>path w. (Some (PathError ''stat'' path (Errno ENOENT)), Suc w)),
      GetMapFDByPin = (\<lambda>path w. ((5, None), Suc w)),
      UpdateMapEntry = (\<lambda>d k v w. (None, Suc w)),
      GetMapEntry = (\<lambda>d k n w. (([], Some (Errno ENOENT)), Suc w)),
      MapFD_Close = (\<lambda>d w. (None, Suc w)),
      cmd_Output = (\<lambda>argv w.
        ((if argv = [''bpftool'', ''map'', ''list'', ''-j''] then listingDocument
          else if take 6 argv = [''bpftool'', ''--json'', ''--pretty'', ''map'', ''dump'', ''pinned'']
          then dumpDocument else [], None), Suc w)),
      cmd_CombinedOutput = (\<lambda>argv w. (([], None), Suc w)),
      cmd_Run = (\<lambda>argv w. (None, Suc w)),
      json_Unmarshal_mapEntries = (\<lambda>out.
        if out = dumpDocument then Inr [\<lparr>Key = [''1'', ''2''], Value = [''255'']\<rparr>]
        else Inl (OtherError ''invalid character'')),
      json_Unmarshal_bpftoolMapMeta = (\<lambda>out.
        if out = listingDocument then Inr [\<lparr>ID = 7, Name = ''cali_v2''\<rparr>]
        else Inl (OtherError ''invalid character'')),
      hexStringsToBytes = hexStringsToBytes_spec\<rparr>"

text \<open>
  Systems in which one interface fails: the pin command; the open of a pin, with
  \<^verbatim>\<open>EMFILE\<close>, returning descriptor 0 or a descriptor 7 that the handle then keeps
  unopened; \<^verbatim>\<open>os.Stat\<close>, with \<^verbatim>\<open>EACCES\<close>; every command run for its output,
  with a message on standard error; and systems whose dump is not JSON or holds a
  record that does not decode.
\<close>

definition pinFailsSys :: "nat sys" where
  "pinFailsSys =
     exampleSys\<lparr>cmd_Run := \<lambda>argv w. (Some (ExitError ''Error: bpf obj pin failed''), Suc w)\<rparr>"

definition openFailsSys :: "nat sys" where
  "openFailsSys = exampleSys\<lparr>GetMapFDByPin := \<lambda>path w. ((0, Some (Errno 24)), Suc w)\<rparr>"

definition staleOpenFailsSys :: "nat sys" where
  "staleOpenFailsSys = exampleSys\<lparr>GetMapFDByPin := \<lambda>path w. ((7, Some (Errno 24)), Suc w)\<rparr>"

definition statDeniedSys :: "nat sys" where
  "statDeniedSys =
     exampleSys\<lparr>os_Stat := \<lambda>path w. (Some (PathError ''stat'' path (Errno 13)), Suc w)\<rparr>"

definition outputFailsSys :: "string \<Rightarrow> nat sys" where
  "outputFailsSys stderr =
     exampleSys\<lparr>cmd_Output := \<lambda>argv w. (([], Some (ExitError stderr)), Suc w)\<rparr>"

definition notJsonSys :: "nat sys" where
  "notJsonSys = exampleSys\<lparr>cmd_Output := \<lambda>argv w. ((''not json'', None), Suc w)\<rparr>"

definition dumpOfSys :: "mapEntry list \<Rightarrow> nat sys" where
  "dumpOfSys mp = exampleSys\<lparr>json_Unmarshal_mapEntries := \<lambda>out. Inr mp\<rparr>"

text \<open>
  The example map: version 2 of \<open>cali_v\<close>, as \<^verbatim>\<open>NewPinnedMap\<close> builds it from a context
  with the given repinning flag.
\<close>

definition exampleParams :: MapParameters where
  "exampleParams =
     \<lparr>Filename = ''/sys/fs/bpf/tc/globals/cali_v'', Type = ''hash'', KeySize = 8,
      ValueSize = 4, MaxEntries = 1024, Name = ''cali_v'', Flags = 1, Version = 2\<rparr>"

definition exampleMap :: "bool \<Rightarrow> PinnedMap" where
  "exampleMap repin =
     \<lparr>Filename = ''/sys/fs/bpf/tc/globals/cali_v'', Type = ''hash'', KeySize = 8,
      ValueSize = 4, MaxEntries = 1024, Name = ''cali_v'', Flags = 1, Version = 2,
      mapContext = Some \<lparr>RepinningEnabled = repin\<rparr>, fdLoaded = False, fd = 0,
      perCPU = False\<rparr>"

section \<open>Properties\<close>

subsection \<open>Decimal printing\<close>

lemma digit_cases:
  "d < 10 \<Longrightarrow>
     d = 0 \<or> d = 1 \<or> d = 2 \<or> d = 3 \<or> d = 4 \<or> d = 5 \<or> d = 6 \<or> d = 7 \<or> d = 8 \<or> d = (9::nat)"
  by arith

lemma digitValue_digitChar: "d < 10 \<Longrightarrow> digitValue (digitChar d) = d"
  using digit_cases [of d] by (auto simp: digitValue_def digitChar_def)

lemma isDigit_digitChar: "d < 10 \<Longrightarrow> isDigit (digitChar d)"
  using digit_cases [of d] by (auto simp: isDigit_def digitChar_def)

lemma digitChar_zero: "d < 10 \<Longrightarrow> digitChar d = CHR ''0'' \<Longrightarrow> d = 0"
  using digit_cases [of d] by (auto simp: digitChar_def)

lemma decimalValue_snoc: "decimalValue (s @ [c]) = 10 * decimalValue s + digitValue c"
  by (simp add: decimalValue_def)

lemma decimalValue_natDigits: "decimalValue (natDigits n) = n"
proof (induction n rule: natDigits.induct)
  case (1 n)
  show ?case
  proof (cases "n < 10")
    case True
    then show ?thesis
      by (simp add: natDigits.simps [of n] decimalValue_def digitValue_digitChar)
  next
    case False
    with 1 show ?thesis
      by (simp add: natDigits.simps [of n] decimalValue_snoc digitValue_digitChar)
  qed
qed

lemma natDigits_all_digits: "list_all isDigit (natDigits n)"
proof (induction n rule: natDigits.induct)
  case (1 n)
  show ?case
  proof (cases "n < 10")
    case True
    then show ?thesis by (simp add: natDigits.simps [of n] isDigit_digitChar)
  next
    case False
    with 1 show ?thesis by (simp add: natDigits.simps [of n] isDigit_digitChar)
  qed
qed

lemma natDigits_nonempty: "natDigits n \<noteq> []"
  by (subst natDigits.simps) simp

lemma natDigits_no_leading_zero: "0 < n \<Longrightarrow> hd (natDigits n) \<noteq> CHR ''0''"
proof (induction n rule: natDigits.induct)
  case (1 n)
  show ?case
  proof (cases "n < 10")
    case True
    with 1(2) show ?thesis
      using digitChar_zero [of n] by (auto simp add: natDigits.simps [of n])
  next
    case False
    then have "0 < n div 10" by simp
    with 1 False show ?thesis
      by (simp add: natDigits.simps [of n] natDigits_nonempty)
  qed
qed

lemma FormatInt_positive:
  assumes "0 < v"
  shows "list_all isDigit (FormatInt v)" and "hd (FormatInt v) \<noteq> CHR ''0''"
    and "int (decimalValue (FormatInt v)) = v"
  using assms
  by (simp_all add: FormatInt_def natDigits_all_digits natDigits_no_leading_zero
      decimalValue_natDigits)

subsection \<open>Versioned names\<close>

text \<open>
  C5. Up to version 1 the versioned name is the name and the versioned filename is the
  filename; from version 2 on each is the base string followed by the decimal
  representation of the version: \<open>FormatInt\<close> of it, which is a string of digits with no
  leading zero whose decimal value is the version.
\<close>

theorem versioned_names_follow_version:
  "(Version mp \<le> 1 \<longrightarrow>
      versionedName mp = MapParameters.Name mp \<and> versionedFilename mp = Filename mp) \<and>
   (1 < Version mp \<longrightarrow>
      versionedName mp = MapParameters.Name mp @ FormatInt (Version mp) \<and>
      versionedFilename mp = Filename mp @ FormatInt (Version mp) \<and>
      list_all isDigit (FormatInt (Version mp)) \<and>
      hd (FormatInt (Version mp)) \<noteq> CHR ''0'' \<and>
      int (decimalValue (FormatInt (Version mp))) = Version mp)"
  by (simp add: versionedName_def versionedFilename_def versionedStr_def FormatInt_positive)

theorem versioned_names_follow_version_witness:
  "1 < Version exampleParams \<and>
   versionedName exampleParams = ''cali_v2'' \<and>
   versionedFilename exampleParams = ''/sys/fs/bpf/tc/globals/cali_v2'' \<and>
   Version (exampleParams\<lparr>Version := 1\<rparr>) \<le> 1 \<and>
   versionedName (exampleParams\<lparr>Version := 1\<rparr>) = ''cali_v'' \<and>
   versionedFilename (exampleParams\<lparr>Version := 1\<rparr>) = ''/sys/fs/bpf/tc/globals/cali_v''"
  using versioned_names_follow_version [of exampleParams]
    versioned_names_follow_version [of "exampleParams\<lparr>Version := 1\<rparr>"]
  by (simp add: exampleParams_def FormatInt_def natDigits.simps digitChar_def)

subsection \<open>The recorded calls\<close>

lemma traced_MaybeMountBPFfs [simp]:
  "MaybeMountBPFfs (traced env) (w, tr) =
     (case MaybeMountBPFfs env w of (r, w') \<Rightarrow> (r, (w', tr @ [CallMaybeMountBPFfs])))"
  by (simp add: traced_def)

lemma traced_os_MkdirAll [simp]:
  "os_MkdirAll (traced env) path perm (w, tr) =
     (case os_MkdirAll env path perm w of (r, w') \<Rightarrow> (r, (w', tr @ [CallMkdirAll path perm])))"
  by (simp add: traced_def)

lemma traced_os_Stat [simp]:
  "os_Stat (traced env) path (w, tr) =
     (case os_Stat env path w of (r, w') \<Rightarrow> (r, (w', tr @ [CallStat path])))"
  by (simp add: traced_def)

lemma traced_GetMapFDByPin [simp]:
  "GetMapFDByPin (traced env) path (w, tr) =
     (case GetMapFDByPin env path w of (r, w') \<Rightarrow> (r, (w', tr @ [CallGetMapFDByPin path])))"
  by (simp add: traced_def)

lemma traced_UpdateMapEntry [simp]:
  "UpdateMapEntry (traced env) d k v (w, tr) =
     (case UpdateMapEntry env d k v w of (r, w') \<Rightarrow> (r, (w', tr @ [CallUpdateMapEntry d k v])))"
  by (simp add: traced_def)

lemma traced_GetMapEntry [simp]:
  "GetMapEntry (traced env) d k n (w, tr) =
     (case GetMapEntry env d k n w of (r, w') \<Rightarrow> (r, (w', tr @ [CallGetMapEntry d k n])))"
  by (simp add: traced_def)

lemma traced_cmd_Output [simp]:
  "cmd_Output (traced env) argv (w, tr) =
     (case cmd_Output env argv w of (r, w') \<Rightarrow> (r, (w', tr @ [CallCommand ModeOutput argv])))"
  by (simp add: traced_def)

lemma traced_cmd_CombinedOutput [simp]:
  "cmd_CombinedOutput (traced env) argv (w, tr) =
     (case cmd_CombinedOutput env argv w of
        (r, w') \<Rightarrow> (r, (w', tr @ [CallCommand ModeCombinedOutput argv])))"
  by (simp add: traced_def)

lemma traced_cmd_Run [simp]:
  "cmd_Run (traced env) argv (w, tr) =
     (case cmd_Run env argv w of (r, w') \<Rightarrow> (r, (w', tr @ [CallCommand ModeRun argv])))"
  by (simp add: traced_def)

lemma traced_pure [simp]:
  "json_Unmarshal_mapEntries (traced env) = json_Unmarshal_mapEntries env"
  "json_Unmarshal_bpftoolMapMeta (traced env) = json_Unmarshal_bpftoolMapMeta env"
  "hexStringsToBytes (traced env) = hexStringsToBytes env"
  by (simp_all add: traced_def)

subsection \<open>Repinning\<close>

lemma repinFirst_none:
  "find (\<lambda>m. bpftoolMapMeta.Name m = name) maps = None \<Longrightarrow>
     repinFirst env name filename maps w = (Some ErrNotExist, w)"
  by (induction maps) (auto split: if_splits)

lemma repinFirst_found:
  "find (\<lambda>m. bpftoolMapMeta.Name m = name) maps = Some m \<Longrightarrow>
     repinFirst env name filename maps w =
       (case cmd_Run env [''bpftool'', ''map'', ''pin'', ''id'', FormatInt (ID m), filename] w of
          (err, w') \<Rightarrow> (errors_Wrap err ''bpftool failed to repin map'', w'))"
  by (induction maps) (auto split: if_splits)

lemma IsNotExist_Wrapped [simp]: "\<not> IsNotExist (Wrapped e msg)"
  by (simp add: IsNotExist_def)

lemma repinFirst_traced:
  "repinFirst (traced env) name filename maps (w, tr) = (r, (w', tr')) \<Longrightarrow>
     \<exists>ex. tr' = tr @ ex \<and> list_all (\<lambda>c. \<not> isCreateCall c) ex"
  by (induction maps) (auto split: if_splits prod.splits)

lemma RepinMap_traced:
  "RepinMap (traced env) name filename (w, tr) = (r, (w', tr')) \<Longrightarrow>
     \<exists>ex. tr' = tr @ ex \<and> list_all (\<lambda>c. \<not> isCreateCall c) ex"
  by (auto simp: RepinMap_def split: prod.splits option.splits sum.splits
      dest!: repinFirst_traced)

subsection \<open>The parts of EnsureExists\<close>

lemma openPin_result:
  "openPin env b w = (r, b', w') \<Longrightarrow>
     \<exists>d. GetMapFDByPin env (versionedFilename b) w = ((d, r), w') \<and>
         b' = (if r = None then b\<lparr>fd := d, fdLoaded := True\<rparr> else b\<lparr>fd := d\<rparr>)"
  by (auto simp: openPin_def split: prod.splits option.splits)

lemma openPin_loaded:
  "openPin env b w = (r, b', w') \<Longrightarrow> fdLoaded b' = (r = None \<or> fdLoaded b)"
  by (auto simp: openPin_def split: prod.splits option.splits)

lemma statOrRepin_returns_error:
  "statOrRepin env b w = (Inl (Inr r), w') \<Longrightarrow> \<exists>e. r = Some e \<and> \<not> IsNotExist e"
  by (auto simp: statOrRepin_def split: prod.splits option.splits if_splits)

lemma statOrRepin_not_nil [simp]: "statOrRepin env b w \<noteq> (Inl (Inr None), w')"
  using statOrRepin_returns_error [of env b w None w'] by auto

lemma statOrRepin_traced:
  "statOrRepin (traced env) b (w, tr) = (r, (w', tr')) \<Longrightarrow>
     \<exists>ex. tr' = tr @ ex \<and> list_all (\<lambda>c. \<not> isCreateCall c) ex"
  by (auto simp: statOrRepin_def split: prod.splits option.splits if_splits
      dest!: RepinMap_traced)

lemma openPin_traced:
  "openPin (traced env) b (w, tr) = (r, b', (w', tr')) \<Longrightarrow>
     tr' = tr @ [CallGetMapFDByPin (versionedFilename b)]"
  by (auto simp: openPin_def split: prod.splits option.splits)

lemma createMap_traced:
  "createMap (traced env) b (w, tr) = (r, (w', tr')) \<Longrightarrow>
     tr' = tr @ [CallCommand ModeCombinedOutput (createArgs b)]"
  by (auto simp: createMap_def split: prod.splits)

subsection \<open>The open flag\<close>

lemma EnsureExists_unopened_cases:
  assumes "\<not> fdLoaded b"
  shows "case EnsureExists env b w of
           (r, b', w') \<Rightarrow> fdLoaded b' = (r = Inr None)"
  using assms
  apply (simp add: EnsureExists_def split: prod.split option.split sum.split)
  apply (auto dest: openPin_loaded)
  done

lemma EnsureExists_loaded_iff:
  "EnsureExists env b w = (r, b', w') \<Longrightarrow> \<not> fdLoaded b \<Longrightarrow> fdLoaded b' = (r = Inr None)"
  using EnsureExists_unopened_cases [of b env w] by simp

lemma EnsureExists_already_open: "fdLoaded b \<Longrightarrow> EnsureExists env b w = (Inr None, b, w)"
  by (simp add: EnsureExists_def)

lemma EnsureExists_nil_is_open:
  "EnsureExists env b w = (Inr None, b', w') \<Longrightarrow> fdLoaded b'"
  by (cases "fdLoaded b") (auto simp: EnsureExists_already_open dest: EnsureExists_loaded_iff)

lemma EnsureExists_error_unopened:
  "EnsureExists env b w = (Inr (Some e), b', w') \<Longrightarrow> \<not> fdLoaded b \<and> \<not> fdLoaded b'"
  by (cases "fdLoaded b") (auto simp: EnsureExists_already_open dest: EnsureExists_loaded_iff)

lemma EnsureExists_open_from_pin:
  assumes "\<not> fdLoaded b"
  shows "case EnsureExists env b w of
           (r, b', w') \<Rightarrow> r = Inr None \<longrightarrow>
             (\<exists>w1 d. GetMapFDByPin env (versionedFilename b) w1 = ((d, None), w') \<and>
                b' = b\<lparr>fd := d, fdLoaded := True\<rparr>)"
  using assms
  apply (simp add: EnsureExists_def split: prod.split option.split sum.split)
  apply (auto dest!: openPin_result)
    apply blast+
  done

lemma EnsureExists_starts_with_mount:
  assumes "\<not> fdLoaded b"
  shows "\<exists>r b' w' tr'.
           EnsureExists (traced env) b (w, []) = (r, b', (w', CallMaybeMountBPFfs # tr'))"
  using assms
  apply (simp add: EnsureExists_def split: prod.split option.split sum.split)
  apply (auto dest!: statOrRepin_traced openPin_traced createMap_traced)
  done

subsection \<open>Running the examples\<close>

lemmas example_eval = EnsureExists_def statOrRepin_def openPin_def createMap_def createArgs_def
  RepinMap_def errors_Wrap_def IsNotExist_def ENOENT_def exampleSys_def exampleMap_def
  listingDocument_def dumpDocument_def versionedName_def versionedFilename_def versionedStr_def
  FormatInt_def natDigits.simps digitChar_def

subsection \<open>Idempotence\<close>

text \<open>
  C2. On a handle that is already open, \<open>EnsureExists\<close> returns nil, the handle and the
  world as they were: no interface is called, so the recorded calls do not grow and no
  creation is issued. A call that returned nil left the handle open, so a second call
  right after it is such a call.
\<close>

theorem EnsureExists_idempotent:
  "(fdLoaded b \<longrightarrow>
      EnsureExists env b w = (Inr None, b, w) \<and>
      EnsureExists (traced env) b (w, tr) = (Inr None, b, (w, tr))) \<and>
   (EnsureExists env b0 w0 = (Inr None, b, w) \<longrightarrow>
      fdLoaded b \<and>
      EnsureExists env b w = (Inr None, b, w) \<and>
      EnsureExists (traced env) b (w, tr) = (Inr None, b, (w, tr)))"
  using EnsureExists_nil_is_open [of env b0 w0 b w]
  by (simp add: EnsureExists_already_open)

theorem EnsureExists_idempotent_witness:
  "EnsureExists exampleSys (exampleMap False) 0
     = (Inr None, (exampleMap False)\<lparr>fd := 5, fdLoaded := True\<rparr>, 5) \<and>
   fdLoaded ((exampleMap False)\<lparr>fd := 5, fdLoaded := True\<rparr>) \<and>
   EnsureExists (traced exampleSys) ((exampleMap False)\<lparr>fd := 5, fdLoaded := True\<rparr>)
       (5, [CallMaybeMountBPFfs])
     = (Inr None, (exampleMap False)\<lparr>fd := 5, fdLoaded := True\<rparr>, (5, [CallMaybeMountBPFfs]))"
proof -
  have first: "EnsureExists exampleSys (exampleMap False) 0
     = (Inr None, (exampleMap False)\<lparr>fd := 5, fdLoaded := True\<rparr>, 5)"
    by (simp add: example_eval)
  with EnsureExists_idempotent
    [of "(exampleMap False)\<lparr>fd := 5, fdLoaded := True\<rparr>" exampleSys 5 "[CallMaybeMountBPFfs]"
      "exampleMap False" 0]
  show ?thesis by simp
qed

subsection \<open>Reconciliation paths\<close>

text \<open>
  C1 (amended). Take an unopened handle, let the mount check and the directory
  creation succeed and let \<^verbatim>\<open>os.Stat\<close> report the versioned pin path as not existing.
  With repinning enabled and a listing that decodes to \<open>maps\<close> in which \<open>m\<close> is the first
  entry whose name equals the versioned name, \<open>EnsureExists\<close> runs
  \<^verbatim>\<open>bpftool map pin id\<close> with the id of \<open>m\<close> and the versioned pin path, and never
  runs the creation command. When the pin fails, its error is returned wrapped and the
  handle is unchanged. When the pin succeeds, the pin is opened: on success the
  descriptor is stored and the handle marked open, on failure the error of the open is
  returned and the handle stays unopened.
\<close>

theorem EnsureExists_repins_listed_map:
  assumes "\<not> fdLoaded b"
    and "MaybeMountBPFfs env w = ((mounted, None), w1)"
    and "os_MkdirAll env ''/sys/fs/bpf/tc/globals'' 448 w1 = (None, w2)"
    and "os_Stat env (versionedFilename b) w2 = (Some notFound, w3)"
    and "IsNotExist notFound"
    and "mapContext b = Some c" and "RepinningEnabled c"
    and "cmd_Output env [''bpftool'', ''map'', ''list'', ''-j''] w3 = ((out, None), w4)"
    and "json_Unmarshal_bpftoolMapMeta env out = Inr maps"
    and "find (\<lambda>m. bpftoolMapMeta.Name m = versionedName b) maps = Some m"
    and "cmd_Run env [''bpftool'', ''map'', ''pin'', ''id'', FormatInt (ID m), versionedFilename b] w4
           = (pinErr, w5)"
    and "GetMapFDByPin env (versionedFilename b) w5 = ((d, openErr), w6)"
  shows "EnsureExists (traced env) b (w, []) =
     (if pinErr \<noteq> None
      then (Inr (errors_Wrap pinErr ''bpftool failed to repin map''), b,
            (w5, [CallMaybeMountBPFfs, CallMkdirAll ''/sys/fs/bpf/tc/globals'' 448,
                  CallStat (versionedFilename b),
                  CallCommand ModeOutput [''bpftool'', ''map'', ''list'', ''-j''],
                  CallCommand ModeRun [''bpftool'', ''map'', ''pin'', ''id'', FormatInt (ID m),
                                       versionedFilename b]]))
      else (Inr openErr,
            (if openErr = None then b\<lparr>fd := d, fdLoaded := True\<rparr> else b\<lparr>fd := d\<rparr>),
            (w6, [CallMaybeMountBPFfs, CallMkdirAll ''/sys/fs/bpf/tc/globals'' 448,
                  CallStat (versionedFilename b),
                  CallCommand ModeOutput [''bpftool'', ''map'', ''list'', ''-j''],
                  CallCommand ModeRun [''bpftool'', ''map'', ''pin'', ''id'', FormatInt (ID m),
                                       versionedFilename b],
                  CallGetMapFDByPin (versionedFilename b)])))"
proof -
  have repin: "RepinMap (traced env) (versionedName b) (versionedFilename b)
      (w3, [CallMaybeMountBPFfs, CallMkdirAll ''/sys/fs/bpf/tc/globals'' 448,
            CallStat (versionedFilename b)]) =
     (errors_Wrap pinErr ''bpftool failed to repin map'',
      (w5, [CallMaybeMountBPFfs, CallMkdirAll ''/sys/fs/bpf/tc/globals'' 448,
            CallStat (versionedFilename b),
            CallCommand ModeOutput [''bpftool'', ''map'', ''list'', ''-j''],
            CallCommand ModeRun [''bpftool'', ''map'', ''pin'', ''id'', FormatInt (ID m),
                                 versionedFilename b]]))"
    using assms(8-11) by (simp add: RepinMap_def repinFirst_found)
  show ?thesis
  proof (cases pinErr)
    case None
    with assms(1-7,12) repin show ?thesis
      by (cases openErr) (simp_all add: EnsureExists_def statOrRepin_def openPin_def errors_Wrap_def)
  next
    case (Some e)
    with assms(1-7) repin show ?thesis
      by (simp add: EnsureExists_def statOrRepin_def errors_Wrap_def)
  qed
qed

theorem EnsureExists_repins_listed_map_witness:
  "EnsureExists (traced exampleSys) (exampleMap True) (0, []) =
     (Inr None, (exampleMap True)\<lparr>fd := 5, fdLoaded := True\<rparr>,
      (6, [CallMaybeMountBPFfs, CallMkdirAll ''/sys/fs/bpf/tc/globals'' 448,
           CallStat ''/sys/fs/bpf/tc/globals/cali_v2'',
           CallCommand ModeOutput [''bpftool'', ''map'', ''list'', ''-j''],
           CallCommand ModeRun [''bpftool'', ''map'', ''pin'', ''id'', ''7'',
                                ''/sys/fs/bpf/tc/globals/cali_v2''],
           CallGetMapFDByPin ''/sys/fs/bpf/tc/globals/cali_v2'']))"
proof -
  let ?b = "exampleMap True"
  let ?vf = "''/sys/fs/bpf/tc/globals/cali_v2''"
  let ?m = "\<lparr>ID = 7, Name = ''cali_v2''\<rparr>"
  have vf: "versionedFilename ?b = ?vf" and vn: "versionedName ?b = ''cali_v2''"
    by (simp_all add: example_eval)
  have h1: "\<not> fdLoaded ?b"
    by (simp add: exampleMap_def)
  have h2: "MaybeMountBPFfs exampleSys 0 = ((True, None), 1)"
    by (simp add: exampleSys_def)
  have h3: "os_MkdirAll exampleSys ''/sys/fs/bpf/tc/globals'' 448 1 = (None, 2)"
    by (simp add: exampleSys_def)
  have h4: "os_Stat exampleSys (versionedFilename ?b) 2
              = (Some (PathError ''stat'' ?vf (Errno ENOENT)), 3)"
    by (simp add: vf) (simp add: exampleSys_def)
  have h5: "IsNotExist (PathError ''stat'' ?vf (Errno ENOENT))"
    by (simp add: IsNotExist_def)
  have h6: "mapContext ?b = Some \<lparr>RepinningEnabled = True\<rparr>"
    by (simp add: exampleMap_def)
  have h7: "RepinningEnabled \<lparr>RepinningEnabled = True\<rparr>"
    by simp
  have h8: "cmd_Output exampleSys [''bpftool'', ''map'', ''list'', ''-j''] 3
              = ((listingDocument, None), 4)"
    by (simp add: exampleSys_def)
  have h9: "json_Unmarshal_bpftoolMapMeta exampleSys listingDocument = Inr [?m]"
    by (simp add: exampleSys_def)
  have h10: "find (\<lambda>m. bpftoolMapMeta.Name m = versionedName ?b) [?m] = Some ?m"
    by (simp add: vn)
  have h11: "cmd_Run exampleSys
      [''bpftool'', ''map'', ''pin'', ''id'', FormatInt (ID ?m), versionedFilename ?b] 4
        = (None, 5)"
    by (simp add: exampleSys_def)
  have h12: "GetMapFDByPin exampleSys (versionedFilename ?b) 5 = ((5, None), 6)"
    by (simp add: exampleSys_def)
  show ?thesis
    using EnsureExists_repins_listed_map [OF h1 h2 h3 h4 h5 h6 h7 h8 h9 h10 h11 h12]
    by (simp add: vf FormatInt_def natDigits.simps digitChar_def)
qed

text \<open>
  C1 as stated fails where the pin command fails: the pin path does not exist,
  repinning is enabled and the listing holds the versioned name, yet the handle is not
  marked open.
\<close>

theorem repin_then_pin_fails_counterexample:
  "os_Stat pinFailsSys (versionedFilename (exampleMap True)) 2
     = (Some (PathError ''stat'' ''/sys/fs/bpf/tc/globals/cali_v2'' (Errno ENOENT)), 3) \<and>
   IsNotExist (PathError ''stat'' ''/sys/fs/bpf/tc/globals/cali_v2'' (Errno ENOENT)) \<and>
   PinnedMap_RepinningEnabled (exampleMap True) \<and>
   cmd_Output pinFailsSys [''bpftool'', ''map'', ''list'', ''-j''] 3
     = ((listingDocument, None), 4) \<and>
   json_Unmarshal_bpftoolMapMeta pinFailsSys listingDocument
     = Inr [\<lparr>ID = 7, Name = versionedName (exampleMap True)\<rparr>] \<and>
   EnsureExists pinFailsSys (exampleMap True) 0
     = (Inr (Some (Wrapped (ExitError ''Error: bpf obj pin failed'')
                     ''bpftool failed to repin map'')),
        exampleMap True, 5) \<and>
   \<not> fdLoaded (exampleMap True)"
  by (simp add: pinFailsSys_def example_eval PinnedMap_RepinningEnabled_def)

text \<open>
  C3 (amended). Take an unopened handle, let the mount check and the directory
  creation succeed and let \<^verbatim>\<open>os.Stat\<close> report the versioned pin path as not existing.
  With repinning disabled and a creation command that succeeds, \<open>EnsureExists\<close> has run
  \<^verbatim>\<open>bpftool map create\<close> with the versioned filename, the kernel type, the key and value
  sizes, the capacity, the versioned name and the flags, and then opens the pin at the
  versioned filename: on success it returns nil with the descriptor stored and the
  handle open, on failure it returns the error of the open and the handle stays
  unopened.
\<close>

theorem EnsureExists_creates_when_repinning_disabled:
  assumes "\<not> fdLoaded b"
    and "MaybeMountBPFfs env w = ((mounted, None), w1)"
    and "os_MkdirAll env ''/sys/fs/bpf/tc/globals'' 448 w1 = (None, w2)"
    and "os_Stat env (versionedFilename b) w2 = (Some notFound, w3)"
    and "IsNotExist notFound"
    and "mapContext b = Some c" and "\<not> RepinningEnabled c"
    and "cmd_CombinedOutput env
           [''bpftool'', ''map'', ''create'', versionedFilename b,
            ''type'', Type b,
            ''key'', FormatInt (KeySize b),
            ''value'', FormatInt (ValueSize b),
            ''entries'', FormatInt (MaxEntries b),
            ''name'', versionedName b,
            ''flags'', FormatInt (Flags b)] w3 = ((out, None), w4)"
    and "GetMapFDByPin env (versionedFilename b) w4 = ((d, openErr), w5)"
  shows "EnsureExists (traced env) b (w, []) =
     (Inr openErr,
      (if openErr = None then b\<lparr>fd := d, fdLoaded := True\<rparr> else b\<lparr>fd := d\<rparr>),
      (w5, [CallMaybeMountBPFfs, CallMkdirAll ''/sys/fs/bpf/tc/globals'' 448,
            CallStat (versionedFilename b),
            CallCommand ModeCombinedOutput
              [''bpftool'', ''map'', ''create'', versionedFilename b,
               ''type'', Type b,
               ''key'', FormatInt (KeySize b),
               ''value'', FormatInt (ValueSize b),
               ''entries'', FormatInt (MaxEntries b),
               ''name'', versionedName b,
               ''flags'', FormatInt (Flags b)],
            CallGetMapFDByPin (versionedFilename b)]))"
  using assms
  by (cases openErr)
    (simp_all add: EnsureExists_def statOrRepin_def createMap_def createArgs_def openPin_def)

theorem EnsureExists_creates_when_repinning_disabled_witness:
  "EnsureExists (traced exampleSys) (exampleMap False) (0, []) =
     (Inr None, (exampleMap False)\<lparr>fd := 5, fdLoaded := True\<rparr>,
      (5, [CallMaybeMountBPFfs, CallMkdirAll ''/sys/fs/bpf/tc/globals'' 448,
           CallStat ''/sys/fs/bpf/tc/globals/cali_v2'',
           CallCommand ModeCombinedOutput
             [''bpftool'', ''map'', ''create'', ''/sys/fs/bpf/tc/globals/cali_v2'',
              ''type'', ''hash'', ''key'', ''8'', ''value'', ''4'', ''entries'', ''1024'',
              ''name'', ''cali_v2'', ''flags'', ''1''],
           CallGetMapFDByPin ''/sys/fs/bpf/tc/globals/cali_v2'']))"
proof -
  let ?b = "exampleMap False"
  let ?vf = "''/sys/fs/bpf/tc/globals/cali_v2''"
  have vf: "versionedFilename ?b = ?vf"
    by (simp add: example_eval)
  have h1: "\<not> fdLoaded ?b"
    by (simp add: exampleMap_def)
  have h2: "MaybeMountBPFfs exampleSys 0 = ((True, None), 1)"
    by (simp add: exampleSys_def)
  have h3: "os_MkdirAll exampleSys ''/sys/fs/bpf/tc/globals'' 448 1 = (None, 2)"
    by (simp add: exampleSys_def)
  have h4: "os_Stat exampleSys (versionedFilename ?b) 2
              = (Some (PathError ''stat'' ?vf (Errno ENOENT)), 3)"
    by (simp add: vf) (simp add: exampleSys_def)
  have h5: "IsNotExist (PathError ''stat'' ?vf (Errno ENOENT))"
    by (simp add: IsNotExist_def)
  have h6: "mapContext ?b = Some \<lparr>RepinningEnabled = False\<rparr>"
    by (simp add: exampleMap_def)
  have h7: "\<not> RepinningEnabled \<lparr>RepinningEnabled = False\<rparr>"
    by simp
  have h8: "cmd_CombinedOutput exampleSys
           [''bpftool'', ''map'', ''create'', versionedFilename ?b,
            ''type'', Type ?b,
            ''key'', FormatInt (KeySize ?b),
            ''value'', FormatInt (ValueSize ?b),
            ''entries'', FormatInt (MaxEntries ?b),
            ''name'', versionedName ?b,
            ''flags'', FormatInt (Flags ?b)] 3 = (([], None), 4)"
    by (simp add: exampleSys_def)
  have h9: "GetMapFDByPin exampleSys (versionedFilename ?b) 4 = ((5, None), 5)"
    by (simp add: exampleSys_def)
  show ?thesis
    using EnsureExists_creates_when_repinning_disabled [OF h1 h2 h3 h4 h5 h6 h7 h8 h9]
    by (simp add: example_eval)
qed

text \<open>
  C3 as stated fails where the open after a successful creation fails: the handle is
  not open on return.
\<close>

theorem create_then_open_fails_counterexample:
  "os_Stat openFailsSys (versionedFilename (exampleMap False)) 2
     = (Some (PathError ''stat'' ''/sys/fs/bpf/tc/globals/cali_v2'' (Errno ENOENT)), 3) \<and>
   IsNotExist (PathError ''stat'' ''/sys/fs/bpf/tc/globals/cali_v2'' (Errno ENOENT)) \<and>
   PinnedMap_RepinningEnabled (exampleMap False) = False \<and>
   cmd_CombinedOutput openFailsSys (createArgs (exampleMap False)) 3 = (([], None), 4) \<and>
   GetMapFDByPin openFailsSys (versionedFilename (exampleMap False)) 4
     = ((0, Some (Errno 24)), 5) \<and>
   EnsureExists openFailsSys (exampleMap False) 0
     = (Inr (Some (Errno 24)), exampleMap False, 5) \<and>
   \<not> fdLoaded (exampleMap False)"
  by (simp add: openFailsSys_def example_eval PinnedMap_RepinningEnabled_def)

text \<open>
  C4. In a call that reaches \<^verbatim>\<open>os.Stat\<close>: when the stat fails with an error that is not
  not-found, \<open>EnsureExists\<close> returns that error after the three calls made so far;
  when the stat reports not-found, repinning is enabled and \<open>RepinMap\<close> fails with an
  error that is not not-found, \<open>EnsureExists\<close> returns that error and the calls made
  are those up to the end of \<open>RepinMap\<close>. In both cases no creation command was run
  and the handle is unchanged.
\<close>

theorem EnsureExists_aborts_without_creating:
  assumes "\<not> fdLoaded b"
    and "MaybeMountBPFfs env w = ((mounted, None), w1)"
    and "os_MkdirAll env ''/sys/fs/bpf/tc/globals'' 448 w1 = (None, w2)"
    and "os_Stat env (versionedFilename b) w2 = (Some statErr, w3)"
  shows "(\<not> IsNotExist statErr \<longrightarrow>
            EnsureExists (traced env) b (w, []) =
              (Inr (Some statErr), b,
               (w3, [CallMaybeMountBPFfs, CallMkdirAll ''/sys/fs/bpf/tc/globals'' 448,
                     CallStat (versionedFilename b)]))) \<and>
         (IsNotExist statErr \<and> mapContext b = Some c \<and> RepinningEnabled c \<and>
          RepinMap (traced env) (versionedName b) (versionedFilename b)
            (w3, [CallMaybeMountBPFfs, CallMkdirAll ''/sys/fs/bpf/tc/globals'' 448,
                  CallStat (versionedFilename b)]) = (Some repinErr, (w4, tr)) \<and>
          \<not> IsNotExist repinErr \<longrightarrow>
            EnsureExists (traced env) b (w, []) = (Inr (Some repinErr), b, (w4, tr)) \<and>
            list_all (\<lambda>c. \<not> isCreateCall c) tr)"
proof (intro conjI impI)
  assume "\<not> IsNotExist statErr"
  with assms show "EnsureExists (traced env) b (w, []) =
      (Inr (Some statErr), b,
       (w3, [CallMaybeMountBPFfs, CallMkdirAll ''/sys/fs/bpf/tc/globals'' 448,
             CallStat (versionedFilename b)]))"
    by (simp add: EnsureExists_def statOrRepin_def)
next
  assume a: "IsNotExist statErr \<and> mapContext b = Some c \<and> RepinningEnabled c \<and>
          RepinMap (traced env) (versionedName b) (versionedFilename b)
            (w3, [CallMaybeMountBPFfs, CallMkdirAll ''/sys/fs/bpf/tc/globals'' 448,
                  CallStat (versionedFilename b)]) = (Some repinErr, (w4, tr)) \<and>
          \<not> IsNotExist repinErr"
  then have nf: "IsNotExist statErr" and ctx: "mapContext b = Some c" "RepinningEnabled c"
    and repin: "RepinMap (traced env) (versionedName b) (versionedFilename b)
            (w3, [CallMaybeMountBPFfs, CallMkdirAll ''/sys/fs/bpf/tc/globals'' 448,
                  CallStat (versionedFilename b)]) = (Some repinErr, (w4, tr))"
    and other: "\<not> IsNotExist repinErr"
    by simp_all
  from assms nf ctx repin other
  show "EnsureExists (traced env) b (w, []) = (Inr (Some repinErr), b, (w4, tr))"
    by (simp add: EnsureExists_def statOrRepin_def)
  from RepinMap_traced [OF repin] obtain ex
    where "tr = [CallMaybeMountBPFfs, CallMkdirAll ''/sys/fs/bpf/tc/globals'' 448,
        CallStat (versionedFilename b)] @ ex" and "list_all (\<lambda>c. \<not> isCreateCall c) ex"
    by auto
  then show "list_all (\<lambda>c. \<not> isCreateCall c) tr"
    by simp
qed

theorem EnsureExists_aborts_without_creating_witness:
  "EnsureExists (traced statDeniedSys) (exampleMap True) (0, [])
     = (Inr (Some (PathError ''stat'' ''/sys/fs/bpf/tc/globals/cali_v2'' (Errno 13))),
        exampleMap True,
        (3, [CallMaybeMountBPFfs, CallMkdirAll ''/sys/fs/bpf/tc/globals'' 448,
             CallStat ''/sys/fs/bpf/tc/globals/cali_v2''])) \<and>
   EnsureExists (traced (outputFailsSys ''Error: permission denied'')) (exampleMap True) (0, [])
     = (Inr (Some (Wrapped (ExitError ''Error: permission denied'') ''bpftool map list failed'')),
        exampleMap True,
        (4, [CallMaybeMountBPFfs, CallMkdirAll ''/sys/fs/bpf/tc/globals'' 448,
             CallStat ''/sys/fs/bpf/tc/globals/cali_v2'',
             CallCommand ModeOutput [''bpftool'', ''map'', ''list'', ''-j'']]))"
proof -
  let ?b = "exampleMap True"
  let ?vf = "''/sys/fs/bpf/tc/globals/cali_v2''"
  let ?env1 = "exampleSys\<lparr>os_Stat := \<lambda>path w. (Some (PathError ''stat'' path (Errno 13)), Suc w)\<rparr>"
  let ?env2 = "exampleSys\<lparr>cmd_Output := \<lambda>argv w. (([], Some (ExitError ''Error: permission denied'')), Suc w)\<rparr>"
  let ?pre = "[CallMaybeMountBPFfs, CallMkdirAll ''/sys/fs/bpf/tc/globals'' 448, CallStat ?vf]"
  have vf: "versionedFilename ?b = ?vf" and vn: "versionedName ?b = ''cali_v2''"
    by (simp_all add: example_eval)
  have h1: "\<not> fdLoaded ?b"
    by (simp add: exampleMap_def)
  have a2: "MaybeMountBPFfs ?env1 0 = ((True, None), 1)"
    and a3: "os_MkdirAll ?env1 ''/sys/fs/bpf/tc/globals'' 448 1 = (None, 2)"
    and a4: "os_Stat ?env1 (versionedFilename ?b) 2 = (Some (PathError ''stat'' ?vf (Errno 13)), 3)"
    by (simp_all add: vf) (simp_all add: exampleSys_def)
  have a5: "\<not> IsNotExist (PathError ''stat'' ?vf (Errno 13))"
    by (simp add: IsNotExist_def ENOENT_def)
  have b2: "MaybeMountBPFfs ?env2 0 = ((True, None), 1)"
    and b3: "os_MkdirAll ?env2 ''/sys/fs/bpf/tc/globals'' 448 1 = (None, 2)"
    and b4: "os_Stat ?env2 (versionedFilename ?b) 2
               = (Some (PathError ''stat'' ?vf (Errno ENOENT)), 3)"
    by (simp_all add: vf) (simp_all add: exampleSys_def)
  have b5: "IsNotExist (PathError ''stat'' ?vf (Errno ENOENT))"
    by (simp add: IsNotExist_def)
  have b6: "mapContext ?b = Some \<lparr>RepinningEnabled = True\<rparr>"
    by (simp add: exampleMap_def)
  have b7: "RepinMap (traced ?env2) (versionedName ?b) (versionedFilename ?b) (3, ?pre)
      = (Some (Wrapped (ExitError ''Error: permission denied'') ''bpftool map list failed''),
         (4, ?pre @ [CallCommand ModeOutput [''bpftool'', ''map'', ''list'', ''-j'']]))"
    by (simp add: RepinMap_def errors_Wrap_def)
  have b8: "\<not> IsNotExist (Wrapped (ExitError ''Error: permission denied'') ''bpftool map list failed'')"
    by simp
  from EnsureExists_aborts_without_creating [OF h1 a2 a3 a4] a5
  have first: "EnsureExists (traced ?env1) ?b (0, []) =
      (Inr (Some (PathError ''stat'' ?vf (Errno 13))), ?b, (3, ?pre))"
    by (simp add: vf)
  from EnsureExists_aborts_without_creating
    [OF h1 b2 b3 b4, of "\<lparr>RepinningEnabled = True\<rparr>"
      "Wrapped (ExitError ''Error: permission denied'') ''bpftool map list failed''" 4
      "?pre @ [CallCommand ModeOutput [''bpftool'', ''map'', ''list'', ''-j'']]"]
    b5 b6 b7 b8
  have second: "EnsureExists (traced ?env2) ?b (0, []) =
      (Inr (Some (Wrapped (ExitError ''Error: permission denied'') ''bpftool map list failed'')),
       ?b, (4, ?pre @ [CallCommand ModeOutput [''bpftool'', ''map'', ''list'', ''-j'']]))"
    by (simp add: vf)
  from first second show ?thesis
    by (simp add: statDeniedSys_def outputFailsSys_def)
qed


subsection \<open>Failed calls leave the handle unopened\<close>

text \<open>
  \<open>EnsureExists\<close> never reads the stored descriptor and writes only the descriptor and
  the open flag: on an unopened handle its result, its world and its calls are the same
  whatever descriptor the handle holds.
\<close>

lemma versioned_fd [simp]:
  "versionedFilename (b\<lparr>fd := x\<rparr>) = versionedFilename b"
  "versionedName (b\<lparr>fd := x\<rparr>) = versionedName b"
  by (simp_all add: versionedFilename_def versionedName_def)

lemma statOrRepin_fd [simp]: "statOrRepin env (b\<lparr>fd := x\<rparr>) w = statOrRepin env b w"
  by (simp add: statOrRepin_def split: prod.split option.split)

lemma createMap_fd [simp]: "createMap env (b\<lparr>fd := x\<rparr>) w = createMap env b w"
  by (simp add: createMap_def createArgs_def)

lemma openPin_fd [simp]: "openPin env (b\<lparr>fd := x\<rparr>) w = openPin env b w"
  by (simp add: openPin_def split: prod.split option.split)

lemma EnsureExists_changes_descriptor_only:
  "case EnsureExists env b w of
     (r, b', w') \<Rightarrow> b' = b\<lparr>fd := fd b', fdLoaded := fdLoaded b'\<rparr>"
  apply (simp add: EnsureExists_def split: prod.split option.split sum.split)
  apply (auto dest!: openPin_result split: if_splits)
  done

lemma EnsureExists_ignores_stale_fd:
  assumes "\<not> fdLoaded b"
  shows "case EnsureExists env b w of
           (r, b1, w1) \<Rightarrow>
             \<exists>b2. EnsureExists env (b\<lparr>fd := x\<rparr>) w = (r, b2, w1) \<and>
                  b2\<lparr>fd := fd b1\<rparr> = b1 \<and> (r = Inr None \<longrightarrow> b2 = b1)"
  using assms
  by (simp add: EnsureExists_def split: prod.split option.split sum.split)

lemma EnsureExists_error_keeps_identity:
  assumes "EnsureExists env b w = (Inr (Some e), b', w')"
  shows "b' = b\<lparr>fd := fd b'\<rparr>"
proof -
  from assms have closed: "\<not> fdLoaded b" "\<not> fdLoaded b'"
    by (simp_all add: EnsureExists_error_unopened)
  from EnsureExists_changes_descriptor_only [where env = env and b = b and w = w] assms
  have "b' = b\<lparr>fd := fd b', fdLoaded := fdLoaded b'\<rparr>"
    by simp
  then have "b' = b\<lparr>fd := fd b', fdLoaded := fdLoaded b\<rparr>"
    using closed by simp
  then show ?thesis
    by simp
qed

text \<open>
  C10. When \<open>EnsureExists\<close> returns an error, the handle was unopened and is still
  unopened, and differs from the handle before the call in the stored descriptor at
  most. \<open>MapFD\<close> on it panics with the usage error. The next \<open>EnsureExists\<close> on it does
  not return at once: it starts with the mount check, and in any system it makes the
  same calls, with the same result and the same world, as a call on the handle before
  the failure, ending with the same handle whenever it succeeds; on an unopened
  handle the stored descriptor has no influence on \<open>EnsureExists\<close>. A call on an
  unopened handle that leaves it open returned nil, and its last step was a
  \<open>GetMapFDByPin\<close> of the versioned filename that returned the stored descriptor with
  no error.
\<close>

theorem EnsureExists_error_leaves_unopened:
  "(EnsureExists env b w = (Inr (Some e), b', w') \<longrightarrow>
      \<not> fdLoaded b \<and> \<not> fdLoaded b' \<and>
      b' = b\<lparr>fd := fd b'\<rparr> \<and>
      MapFD b' = Inl (Panic ''MapFD() called without first calling EnsureExists()'') \<and>
      (\<exists>r b'' w'' tr.
         EnsureExists (traced env2) b' (w2, []) = (r, b'', (w'', CallMaybeMountBPFfs # tr))) \<and>
      (EnsureExists (traced env2) b (w2, []) = (r2, b2, (w3, tr2)) \<longrightarrow>
         (\<exists>b3. EnsureExists (traced env2) b' (w2, []) = (r2, b3, (w3, tr2)) \<and>
               b3\<lparr>fd := fd b2\<rparr> = b2 \<and> (r2 = Inr None \<longrightarrow> b3 = b2)))) \<and>
   (\<not> fdLoaded b \<and> EnsureExists env b w = (r1, b1, w1) \<longrightarrow>
      (\<exists>b4. EnsureExists env (b\<lparr>fd := x\<rparr>) w = (r1, b4, w1) \<and>
            b4\<lparr>fd := fd b1\<rparr> = b1 \<and> (r1 = Inr None \<longrightarrow> b4 = b1))) \<and>
   (\<not> fdLoaded b \<and> EnsureExists env b w = (r1, b1, w1) \<and> fdLoaded b1 \<longrightarrow>
      r1 = Inr None \<and>
      (\<exists>w0 d. GetMapFDByPin env (versionedFilename b) w0 = ((d, None), w1) \<and>
             b1 = b\<lparr>fd := d, fdLoaded := True\<rparr>))"
proof (intro conjI impI)
  assume run: "EnsureExists env b w = (Inr (Some e), b', w')"
  then show unopened: "\<not> fdLoaded b"
    by (simp add: EnsureExists_error_unopened)
  from run show closed: "\<not> fdLoaded b'"
    by (simp add: EnsureExists_error_unopened)
  from run show same: "b' = b\<lparr>fd := fd b'\<rparr>"
    by (rule EnsureExists_error_keeps_identity)
  from closed show "MapFD b' = Inl (Panic ''MapFD() called without first calling EnsureExists()'')"
    by (simp add: MapFD_def)
  from closed show "\<exists>r b'' w'' tr.
      EnsureExists (traced env2) b' (w2, []) = (r, b'', (w'', CallMaybeMountBPFfs # tr))"
    by (rule EnsureExists_starts_with_mount)
  assume fresh: "EnsureExists (traced env2) b (w2, []) = (r2, b2, (w3, tr2))"
  from EnsureExists_ignores_stale_fd [OF unopened, where env = "traced env2" and w = "(w2, [])" and x = "fd b'"] fresh
  have "\<exists>b3. EnsureExists (traced env2) (b\<lparr>fd := fd b'\<rparr>) (w2, []) = (r2, b3, (w3, tr2)) \<and>
      b3\<lparr>fd := fd b2\<rparr> = b2 \<and> (r2 = Inr None \<longrightarrow> b3 = b2)"
    by simp
  with same show "\<exists>b3. EnsureExists (traced env2) b' (w2, []) = (r2, b3, (w3, tr2)) \<and>
      b3\<lparr>fd := fd b2\<rparr> = b2 \<and> (r2 = Inr None \<longrightarrow> b3 = b2)"
    by simp
next
  assume a: "\<not> fdLoaded b \<and> EnsureExists env b w = (r1, b1, w1)"
  then have "\<not> fdLoaded b" and run: "EnsureExists env b w = (r1, b1, w1)"
    by simp_all
  from EnsureExists_ignores_stale_fd [OF this(1), where env = env and w = w and x = x] run
  show "\<exists>b4. EnsureExists env (b\<lparr>fd := x\<rparr>) w = (r1, b4, w1) \<and>
      b4\<lparr>fd := fd b1\<rparr> = b1 \<and> (r1 = Inr None \<longrightarrow> b4 = b1)"
    by simp
next
  assume a: "\<not> fdLoaded b \<and> EnsureExists env b w = (r1, b1, w1) \<and> fdLoaded b1"
  then show r1: "r1 = Inr None"
    using EnsureExists_loaded_iff [of env b w r1 b1 w1] by simp
  from a r1 show "\<exists>w0 d. GetMapFDByPin env (versionedFilename b) w0 = ((d, None), w1) \<and>
      b1 = b\<lparr>fd := d, fdLoaded := True\<rparr>"
    using EnsureExists_open_from_pin [of b env w] by simp
qed

theorem EnsureExists_error_leaves_unopened_witness:
  "EnsureExists staleOpenFailsSys (exampleMap False) 0
     = (Inr (Some (Errno 24)), (exampleMap False)\<lparr>fd := 7\<rparr>, 5) \<and>
   \<not> fdLoaded ((exampleMap False)\<lparr>fd := 7\<rparr>) \<and>
   MapFD ((exampleMap False)\<lparr>fd := 7\<rparr>)
     = Inl (Panic ''MapFD() called without first calling EnsureExists()'') \<and>
   EnsureExists (traced exampleSys) ((exampleMap False)\<lparr>fd := 7\<rparr>) (5, [])
     = (Inr None, (exampleMap False)\<lparr>fd := 5, fdLoaded := True\<rparr>,
        (10, [CallMaybeMountBPFfs, CallMkdirAll ''/sys/fs/bpf/tc/globals'' 448,
              CallStat ''/sys/fs/bpf/tc/globals/cali_v2'',
              CallCommand ModeCombinedOutput
                [''bpftool'', ''map'', ''create'', ''/sys/fs/bpf/tc/globals/cali_v2'',
                 ''type'', ''hash'', ''key'', ''8'', ''value'', ''4'', ''entries'', ''1024'',
                 ''name'', ''cali_v2'', ''flags'', ''1''],
              CallGetMapFDByPin ''/sys/fs/bpf/tc/globals/cali_v2''])) \<and>
   (\<exists>w0 d. GetMapFDByPin exampleSys (versionedFilename (exampleMap False)) w0 = ((d, None), 10) \<and>
      (exampleMap False)\<lparr>fd := 5, fdLoaded := True\<rparr>
        = (exampleMap False)\<lparr>fd := d, fdLoaded := True\<rparr>)"
proof -
  let ?b = "exampleMap False"
  let ?stale = "?b\<lparr>fd := 7\<rparr>"
  let ?opened = "?b\<lparr>fd := 5, fdLoaded := True\<rparr>"
  let ?calls = "[CallMaybeMountBPFfs, CallMkdirAll ''/sys/fs/bpf/tc/globals'' 448,
      CallStat ''/sys/fs/bpf/tc/globals/cali_v2'',
      CallCommand ModeCombinedOutput
        [''bpftool'', ''map'', ''create'', ''/sys/fs/bpf/tc/globals/cali_v2'',
         ''type'', ''hash'', ''key'', ''8'', ''value'', ''4'', ''entries'', ''1024'',
         ''name'', ''cali_v2'', ''flags'', ''1''],
      CallGetMapFDByPin ''/sys/fs/bpf/tc/globals/cali_v2'']"
  have failing: "EnsureExists staleOpenFailsSys ?b 0 = (Inr (Some (Errno 24)), ?stale, 5)"
    by (simp add: staleOpenFailsSys_def example_eval)
  have fresh: "EnsureExists (traced exampleSys) ?b (5, []) = (Inr None, ?opened, (10, ?calls))"
    by (simp add: example_eval)
  have plain: "EnsureExists exampleSys ?b 5 = (Inr None, ?opened, 10)"
    by (simp add: example_eval)
  have unopened: "\<not> fdLoaded ?b" and opened: "fdLoaded ?opened"
    by (simp_all add: exampleMap_def)
  from EnsureExists_error_leaves_unopened
    [where env = staleOpenFailsSys and b = ?b and w = 0 and e = "Errno 24" and b' = ?stale
      and w' = 5 and ?env2.0 = exampleSys and ?w2.0 = 5 and ?r2.0 = "Inr None"
      and ?b2.0 = ?opened and ?w3.0 = 10 and ?tr2.0 = ?calls]
    failing fresh
  have after_error: "\<not> fdLoaded ?stale \<and>
      MapFD ?stale = Inl (Panic ''MapFD() called without first calling EnsureExists()'') \<and>
      EnsureExists (traced exampleSys) ?stale (5, []) = (Inr None, ?opened, (10, ?calls))"
    by auto
  from EnsureExists_error_leaves_unopened
    [where env = exampleSys and b = ?b and w = 5 and ?r1.0 = "Inr None"
      and ?b1.0 = ?opened and ?w1.0 = 10]
    plain unopened opened
  have after_success: "\<exists>w0 d. GetMapFDByPin exampleSys (versionedFilename ?b) w0 = ((d, None), 10) \<and>
      ?opened = ?b\<lparr>fd := d, fdLoaded := True\<rparr>"
    by simp
  from failing after_error after_success show ?thesis by simp
qed

subsection \<open>Iterating over a dump\<close>

text \<open>The records of \<open>mp\<close> decode, in order, to the key and value pairs \<open>kvs\<close>.\<close>

lemma iterEntries_decoded:
  "list_all2 (\<lambda>me (k, v). hexStringsToBytes env (Key me) = Inr k \<and>
                          hexStringsToBytes env (Value me) = Inr v) mp kvs \<Longrightarrow>
     iterEntries env f mp s = (None, foldl (\<lambda>s (k, v). f k v s) s kvs)"
  by (induction mp kvs arbitrary: s rule: list_all2_induct) auto

lemma iterEntries_append:
  "list_all2 (\<lambda>me (k, v). hexStringsToBytes env (Key me) = Inr k \<and>
                          hexStringsToBytes env (Value me) = Inr v) pre kvs \<Longrightarrow>
     iterEntries env f (pre @ rest) s =
       iterEntries env f rest (foldl (\<lambda>s (k, v). f k v s) s kvs)"
  by (induction pre kvs arbitrary: s rule: list_all2_induct) auto

lemma Iter_dump:
  "cmd_Output env [''bpftool'', ''--json'', ''--pretty'', ''map'', ''dump'', ''pinned'',
                   versionedFilename b] w = ((output, None), w') \<Longrightarrow>
   Iter env b f s w =
     (case IterMapCmdOutput env output f s of
        (Some err, s') \<Rightarrow> (Some (WithMessage err (''map '' @ versionedFilename b)), s', w')
      | (None, s') \<Rightarrow> (None, s', w'))"
  by (simp add: Iter_def DumpMapCmd_def)

lemmas decode_eval = parseByte_spec_def isDigit_def decimalValue_def digitValue_def

text \<open>
  C6. When the dump command succeeds, its output decodes to the records \<open>mp\<close> and
  every record's key and value decode, to the pairs \<open>kvs\<close> in the order of \<open>mp\<close>, then
  \<open>Iter\<close> returns nil and the visitor has been applied to exactly the pairs of \<open>kvs\<close>,
  one after the other in that order; a visitor that records its arguments ends with
  \<open>kvs\<close>. In particular, with the byte decoder the spec describes and a JSON decoder
  that reads the document \<^verbatim>\<open>[{"key":["1","2"],"value":["255"]}]\<close> as its one record,
  the visitor is called once, with key bytes 0x01, 0x02 and value byte 0xFF.
\<close>

theorem Iter_visits_records_in_order:
  "(cmd_Output env [''bpftool'', ''--json'', ''--pretty'', ''map'', ''dump'', ''pinned'',
                    versionedFilename b] w = ((doc, None), w') \<and>
    json_Unmarshal_mapEntries env doc = Inr mp \<and>
    list_all2 (\<lambda>me (k, v). hexStringsToBytes env (Key me) = Inr k \<and>
                           hexStringsToBytes env (Value me) = Inr v) mp kvs \<longrightarrow>
      Iter env b f s w = (None, foldl (\<lambda>s (k, v). f k v s) s kvs, w') \<and>
      Iter env b (\<lambda>k v visits. visits @ [(k, v)]) [] w = (None, kvs, w')) \<and>
   (cmd_Output env [''bpftool'', ''--json'', ''--pretty'', ''map'', ''dump'', ''pinned'',
                    versionedFilename b] w = ((dumpDocument, None), w') \<and>
    json_Unmarshal_mapEntries env dumpDocument
      = Inr [\<lparr>Key = [''1'', ''2''], Value = [''255'']\<rparr>] \<and>
    hexStringsToBytes env = hexStringsToBytes_spec \<longrightarrow>
      Iter env b (\<lambda>k v visits. visits @ [(k, v)]) [] w = (None, [([0x01, 0x02], [0xFF])], w'))"
proof (intro conjI impI)
  assume a: "cmd_Output env [''bpftool'', ''--json'', ''--pretty'', ''map'', ''dump'', ''pinned'',
                    versionedFilename b] w = ((doc, None), w') \<and>
    json_Unmarshal_mapEntries env doc = Inr mp \<and>
    list_all2 (\<lambda>me (k, v). hexStringsToBytes env (Key me) = Inr k \<and>
                           hexStringsToBytes env (Value me) = Inr v) mp kvs"
  then have dump: "cmd_Output env [''bpftool'', ''--json'', ''--pretty'', ''map'', ''dump'',
      ''pinned'', versionedFilename b] w = ((doc, None), w')"
    and parsed: "json_Unmarshal_mapEntries env doc = Inr mp"
    and decoded: "list_all2 (\<lambda>me (k, v). hexStringsToBytes env (Key me) = Inr k \<and>
                           hexStringsToBytes env (Value me) = Inr v) mp kvs"
    by simp_all
  from parsed show "Iter env b f s w = (None, foldl (\<lambda>s (k, v). f k v s) s kvs, w')"
    by (simp add: Iter_dump [OF dump] IterMapCmdOutput_def iterEntries_decoded [OF decoded])
  have "foldl (\<lambda>visits (k, v). visits @ [(k, v)]) acc kvs = acc @ kvs" for acc
    by (induction kvs arbitrary: acc) auto
  with parsed show "Iter env b (\<lambda>k v visits. visits @ [(k, v)]) [] w = (None, kvs, w')"
    by (simp add: Iter_dump [OF dump] IterMapCmdOutput_def iterEntries_decoded [OF decoded])
next
  assume "cmd_Output env [''bpftool'', ''--json'', ''--pretty'', ''map'', ''dump'', ''pinned'',
                    versionedFilename b] w = ((dumpDocument, None), w') \<and>
    json_Unmarshal_mapEntries env dumpDocument
      = Inr [\<lparr>Key = [''1'', ''2''], Value = [''255'']\<rparr>] \<and>
    hexStringsToBytes env = hexStringsToBytes_spec"
  then show "Iter env b (\<lambda>k v visits. visits @ [(k, v)]) [] w
      = (None, [([0x01, 0x02], [0xFF])], w')"
    by (simp add: Iter_dump IterMapCmdOutput_def parseByte_spec_def isDigit_def
        decimalValue_def digitValue_def)
qed

theorem Iter_visits_records_in_order_witness:
  "Iter exampleSys (exampleMap False) (\<lambda>k v visits. visits @ [(k, v)]) [] 0
     = (None, [([0x01, 0x02], [0xFF])], 1) \<and>
   Iter exampleSys (exampleMap False) (\<lambda>k v n. Suc n) 0 0 = (None, 1, 1)"
proof -
  let ?b = "exampleMap False"
  let ?me = "\<lparr>Key = [''1'', ''2''], Value = [''255'']\<rparr>"
  have dump: "cmd_Output exampleSys [''bpftool'', ''--json'', ''--pretty'', ''map'', ''dump'',
      ''pinned'', versionedFilename ?b] 0 = ((dumpDocument, None), 1)"
    by (simp add: exampleSys_def)
  have parsed: "json_Unmarshal_mapEntries exampleSys dumpDocument = Inr [?me]"
    by (simp add: exampleSys_def)
  have dec: "hexStringsToBytes exampleSys = hexStringsToBytes_spec"
    by (simp add: exampleSys_def)
  have decoded: "list_all2 (\<lambda>me (k, v). hexStringsToBytes exampleSys (Key me) = Inr k \<and>
      hexStringsToBytes exampleSys (Value me) = Inr v) [?me] [([0x01, 0x02], [0xFF])]"
    by (simp add: dec decode_eval)
  from Iter_visits_records_in_order
    [where env = exampleSys and b = ?b and w = 0 and w' = 1 and doc = dumpDocument
      and mp = "[?me]" and kvs = "[([0x01, 0x02], [0xFF])]" and f = "\<lambda>k v n. Suc n" and s = 0]
    dump parsed decoded dec
  show ?thesis by simp
qed

text \<open>
  C7. Let the dump command succeed with output \<open>doc\<close>. When \<open>doc\<close> does not decode as
  JSON, \<open>Iter\<close> returns the parse error, which holds the decoder's error and \<open>doc\<close>,
  and the visitor's state is the initial one whatever the visitor: it was not called.
  When the records before \<open>me\<close> decode and the key of \<open>me\<close> does not, or its key does
  and its value does not, \<open>Iter\<close> returns an error that holds the record \<open>me\<close> and the
  decoder's error, after visiting the records before \<open>me\<close> and none after.
\<close>

theorem Iter_aborts_on_malformed_dump:
  assumes "cmd_Output env [''bpftool'', ''--json'', ''--pretty'', ''map'', ''dump'', ''pinned'',
                           versionedFilename b] w = ((doc, None), w')"
  shows "(json_Unmarshal_mapEntries env doc = Inl parseErr \<longrightarrow>
            IterMapCmdOutput env doc f s = (Some (CannotParseJson parseErr doc), s) \<and>
            Iter env b f s w =
              (Some (WithMessage (CannotParseJson parseErr doc)
                       (''map '' @ versionedFilename b)), s, w')) \<and>
         (json_Unmarshal_mapEntries env doc = Inr (pre @ me # post) \<and>
          list_all2 (\<lambda>me (k, v). hexStringsToBytes env (Key me) = Inr k \<and>
                                 hexStringsToBytes env (Value me) = Inr v) pre kvs \<and>
          hexStringsToBytes env (Key me) = Inl decodeErr \<longrightarrow>
            Iter env b f s w =
              (Some (WithMessage (FailedParsingKey me decodeErr)
                       (''map '' @ versionedFilename b)),
               foldl (\<lambda>s (k, v). f k v s) s kvs, w')) \<and>
         (json_Unmarshal_mapEntries env doc = Inr (pre @ me # post) \<and>
          list_all2 (\<lambda>me (k, v). hexStringsToBytes env (Key me) = Inr k \<and>
                                 hexStringsToBytes env (Value me) = Inr v) pre kvs \<and>
          hexStringsToBytes env (Key me) = Inr key \<and>
          hexStringsToBytes env (Value me) = Inl decodeErr \<longrightarrow>
            Iter env b f s w =
              (Some (WithMessage (FailedParsingVal me decodeErr)
                       (''map '' @ versionedFilename b)),
               foldl (\<lambda>s (k, v). f k v s) s kvs, w'))"
proof (intro conjI impI)
  assume "json_Unmarshal_mapEntries env doc = Inl parseErr"
  then show "IterMapCmdOutput env doc f s = (Some (CannotParseJson parseErr doc), s)"
    and "Iter env b f s w =
      (Some (WithMessage (CannotParseJson parseErr doc) (''map '' @ versionedFilename b)),
       s, w')"
    by (simp_all add: Iter_dump [OF assms] IterMapCmdOutput_def)
next
  assume a: "json_Unmarshal_mapEntries env doc = Inr (pre @ me # post) \<and>
          list_all2 (\<lambda>me (k, v). hexStringsToBytes env (Key me) = Inr k \<and>
                                 hexStringsToBytes env (Value me) = Inr v) pre kvs \<and>
          hexStringsToBytes env (Key me) = Inl decodeErr"
  then have decoded: "list_all2 (\<lambda>me (k, v). hexStringsToBytes env (Key me) = Inr k \<and>
                                 hexStringsToBytes env (Value me) = Inr v) pre kvs"
    by simp
  from a show "Iter env b f s w =
      (Some (WithMessage (FailedParsingKey me decodeErr) (''map '' @ versionedFilename b)),
       foldl (\<lambda>s (k, v). f k v s) s kvs, w')"
    by (simp add: Iter_dump [OF assms] IterMapCmdOutput_def iterEntries_append [OF decoded])
next
  assume a: "json_Unmarshal_mapEntries env doc = Inr (pre @ me # post) \<and>
          list_all2 (\<lambda>me (k, v). hexStringsToBytes env (Key me) = Inr k \<and>
                                 hexStringsToBytes env (Value me) = Inr v) pre kvs \<and>
          hexStringsToBytes env (Key me) = Inr key \<and>
          hexStringsToBytes env (Value me) = Inl decodeErr"
  then have decoded: "list_all2 (\<lambda>me (k, v). hexStringsToBytes env (Key me) = Inr k \<and>
                                 hexStringsToBytes env (Value me) = Inr v) pre kvs"
    by simp
  from a show "Iter env b f s w =
      (Some (WithMessage (FailedParsingVal me decodeErr) (''map '' @ versionedFilename b)),
       foldl (\<lambda>s (k, v). f k v s) s kvs, w')"
    by (simp add: Iter_dump [OF assms] IterMapCmdOutput_def iterEntries_append [OF decoded])
qed

theorem Iter_aborts_on_malformed_dump_witness:
  "Iter notJsonSys (exampleMap False) (\<lambda>k v visits. visits @ [(k, v)]) [] 0
     = (Some (WithMessage (CannotParseJson (OtherError ''invalid character'') ''not json'')
                ''map /sys/fs/bpf/tc/globals/cali_v2''), [], 1) \<and>
   Iter (dumpOfSys [\<lparr>Key = [''1''], Value = [''2'']\<rparr>, \<lparr>Key = [''x''], Value = [''3'']\<rparr>,
                    \<lparr>Key = [''4''], Value = [''5'']\<rparr>])
       (exampleMap False) (\<lambda>k v visits. visits @ [(k, v)]) [] 0
     = (Some (WithMessage (FailedParsingKey \<lparr>Key = [''x''], Value = [''3'']\<rparr> (InvalidByte ''x''))
                ''map /sys/fs/bpf/tc/globals/cali_v2''), [([1], [2])], 1) \<and>
   Iter (dumpOfSys [\<lparr>Key = [''1''], Value = [''256'']\<rparr>])
       (exampleMap False) (\<lambda>k v visits. visits @ [(k, v)]) [] 0
     = (Some (WithMessage (FailedParsingVal \<lparr>Key = [''1''], Value = [''256'']\<rparr> (InvalidByte ''256''))
                ''map /sys/fs/bpf/tc/globals/cali_v2''), [], 1)"
proof -
  let ?b = "exampleMap False"
  let ?rec = "\<lambda>k v visits. visits @ [(k :: byte list, v :: byte list)]"
  let ?env1 = "exampleSys\<lparr>cmd_Output := \<lambda>argv w. ((''not json'', None), Suc w)\<rparr>"
  let ?env2 = "exampleSys\<lparr>json_Unmarshal_mapEntries := \<lambda>out.
           Inr [\<lparr>Key = [''1''], Value = [''2'']\<rparr>, \<lparr>Key = [''x''], Value = [''3'']\<rparr>,
                \<lparr>Key = [''4''], Value = [''5'']\<rparr>]\<rparr>"
  let ?env3 = "exampleSys\<lparr>json_Unmarshal_mapEntries := \<lambda>out.
           Inr [\<lparr>Key = [''1''], Value = [''256'']\<rparr>]\<rparr>"
  have vf: "versionedFilename ?b = ''/sys/fs/bpf/tc/globals/cali_v2''"
    by (simp add: example_eval)
  have d1: "cmd_Output ?env1 [''bpftool'', ''--json'', ''--pretty'', ''map'', ''dump'',
      ''pinned'', versionedFilename ?b] 0 = ((''not json'', None), 1)"
    by simp
  have p1: "json_Unmarshal_mapEntries ?env1 ''not json'' = Inl (OtherError ''invalid character'')"
    by (simp add: exampleSys_def dumpDocument_def)
  have d2: "cmd_Output ?env2 [''bpftool'', ''--json'', ''--pretty'', ''map'', ''dump'',
      ''pinned'', versionedFilename ?b] 0 = ((dumpDocument, None), 1)"
    by (simp add: exampleSys_def)
  have p2: "json_Unmarshal_mapEntries ?env2 dumpDocument =
      Inr ([\<lparr>Key = [''1''], Value = [''2'']\<rparr>] @ \<lparr>Key = [''x''], Value = [''3'']\<rparr> #
           [\<lparr>Key = [''4''], Value = [''5'']\<rparr>])"
    by simp
  have l2: "list_all2 (\<lambda>me (k, v). hexStringsToBytes ?env2 (Key me) = Inr k \<and>
      hexStringsToBytes ?env2 (Value me) = Inr v) [\<lparr>Key = [''1''], Value = [''2'']\<rparr>] [([1], [2])]"
    by (simp add: exampleSys_def decode_eval)
  have k2: "hexStringsToBytes ?env2 (Key \<lparr>Key = [''x''], Value = [''3'']\<rparr>) = Inl (InvalidByte ''x'')"
    by (simp add: exampleSys_def decode_eval)
  have d3: "cmd_Output ?env3 [''bpftool'', ''--json'', ''--pretty'', ''map'', ''dump'',
      ''pinned'', versionedFilename ?b] 0 = ((dumpDocument, None), 1)"
    by (simp add: exampleSys_def)
  have p3: "json_Unmarshal_mapEntries ?env3 dumpDocument =
      Inr ([] @ \<lparr>Key = [''1''], Value = [''256'']\<rparr> # [])"
    by simp
  have l3: "list_all2 (\<lambda>me (k, v). hexStringsToBytes ?env3 (Key me) = Inr k \<and>
      hexStringsToBytes ?env3 (Value me) = Inr v) [] []"
    by simp
  have k3: "hexStringsToBytes ?env3 (Key \<lparr>Key = [''1''], Value = [''256'']\<rparr>) = Inr [1]"
    and v3: "hexStringsToBytes ?env3 (Value \<lparr>Key = [''1''], Value = [''256'']\<rparr>)
      = Inl (InvalidByte ''256'')"
    by (simp_all add: exampleSys_def decode_eval)
  from Iter_aborts_on_malformed_dump [OF d1, where parseErr = "OtherError ''invalid character''"
      and f = ?rec and s = "[]"] p1
  have first: "Iter ?env1 ?b ?rec [] 0 =
      (Some (WithMessage (CannotParseJson (OtherError ''invalid character'') ''not json'')
                ''map /sys/fs/bpf/tc/globals/cali_v2''), [], 1)"
    by (simp add: vf)
  from Iter_aborts_on_malformed_dump [OF d2, where pre = "[\<lparr>Key = [''1''], Value = [''2'']\<rparr>]"
      and me = "\<lparr>Key = [''x''], Value = [''3'']\<rparr>" and post = "[\<lparr>Key = [''4''], Value = [''5'']\<rparr>]"
      and kvs = "[([1], [2])]" and decodeErr = "InvalidByte ''x''" and f = ?rec and s = "[]"]
    p2 l2 k2
  have second: "Iter ?env2 ?b ?rec [] 0 =
      (Some (WithMessage (FailedParsingKey \<lparr>Key = [''x''], Value = [''3'']\<rparr> (InvalidByte ''x''))
                ''map /sys/fs/bpf/tc/globals/cali_v2''), [([1], [2])], 1)"
    by (simp add: vf)
  from Iter_aborts_on_malformed_dump [OF d3, where pre = "[]"
      and me = "\<lparr>Key = [''1''], Value = [''256'']\<rparr>" and post = "[]"
      and kvs = "[]" and decodeErr = "InvalidByte ''256''" and key = "[1]" and f = ?rec and s = "[]"]
    p3 l3 k3 v3
  have third: "Iter ?env3 ?b ?rec [] 0 =
      (Some (WithMessage (FailedParsingVal \<lparr>Key = [''1''], Value = [''256'']\<rparr> (InvalidByte ''256''))
                ''map /sys/fs/bpf/tc/globals/cali_v2''), [], 1)"
    by (simp add: vf)
  from first second third show ?thesis
    by (simp add: notJsonSys_def dumpOfSys_def)
qed

subsection \<open>Strings and bytes\<close>

lemma HasPrefix_iff: "HasPrefix s p \<longleftrightarrow> (\<exists>q. s = p @ q)"
  by (induction s p rule: HasPrefix.induct) auto

lemma Contains_iff: "Contains s substr \<longleftrightarrow> (\<exists>p q. s = p @ substr @ q)"
proof (induction s)
  case Nil
  then show ?case by auto
next
  case (Cons c cs)
  have "(\<exists>p q. c # cs = p @ substr @ q) \<longleftrightarrow>
        (\<exists>q. c # cs = substr @ q) \<or> (\<exists>p q. cs = p @ substr @ q)"
  proof
    assume "\<exists>p q. c # cs = p @ substr @ q"
    then obtain p q where pq: "c # cs = p @ substr @ q" by blast
    show "(\<exists>q. c # cs = substr @ q) \<or> (\<exists>p q. cs = p @ substr @ q)"
    proof (cases p)
      case Nil
      with pq show ?thesis by auto
    next
      case (Cons a p')
      with pq have "cs = p' @ substr @ q" by simp
      then show ?thesis by blast
    qed
  next
    assume "(\<exists>q. c # cs = substr @ q) \<or> (\<exists>p q. cs = p @ substr @ q)"
    then show "\<exists>p q. c # cs = p @ substr @ q"
    proof
      assume "\<exists>q. c # cs = substr @ q"
      then obtain q where "c # cs = [] @ substr @ q" by auto
      then show ?thesis by blast
    next
      assume "\<exists>p q. cs = p @ substr @ q"
      then obtain p q where "c # cs = (c # p) @ substr @ q" by auto
      then show ?thesis by blast
    qed
  qed
  with Cons show ?case
    by (simp add: HasPrefix_iff)
qed

lemma FormatInt_nonneg:
  assumes "0 \<le> v"
  shows "list_all isDigit (FormatInt v)" and "int (decimalValue (FormatInt v)) = v"
  using assms by (simp_all add: FormatInt_def natDigits_all_digits decimalValue_natDigits)

lemma appendBytes_eq: "appendBytes strings bytes = strings @ map (\<lambda>x. FormatInt (uint x)) bytes"
  by (induction bytes arbitrary: strings) auto

subsection \<open>Entry operations\<close>

lemma EnsureExists_perCPU:
  "case EnsureExists env b w of (r, b', w') \<Rightarrow> perCPU b' = perCPU b"
  apply (simp add: EnsureExists_def split: prod.split option.split sum.split)
  apply (auto dest!: openPin_result split: if_splits)
  done

text \<open>
  C8. A handle that \<open>NewPinnedMap\<close> builds from a kernel type containing \<open>percpu\<close> has
  \<open>perCPU\<close> set, and \<open>Update\<close> and \<open>Get\<close> on it panic with the usage error for every
  key and value, leaving the world and the recorded calls as they were: no kernel call
  is made. The same holds for the handle after any \<open>EnsureExists\<close>.
\<close>

theorem perCPU_Get_and_Update_panic:
  assumes "NewPinnedMap c params = Inr m" and "Contains (Type params) ''percpu''"
  shows "perCPU m \<and>
         Update (traced env) m k v (w, tr)
           = (Inl (Panic ''Per-CPU operations not implemented''), (w, tr)) \<and>
         Get (traced env) m k (w, tr)
           = (Inl (Panic ''Per-CPU operations not implemented''), (w, tr)) \<and>
         (\<forall>r m' w1. EnsureExists env0 m w0 = (r, m', w1) \<longrightarrow>
            Update (traced env) m' k v (w, tr)
              = (Inl (Panic ''Per-CPU operations not implemented''), (w, tr)) \<and>
            Get (traced env) m' k (w, tr)
              = (Inl (Panic ''Per-CPU operations not implemented''), (w, tr)))"
proof -
  from assms have per: "perCPU m"
    by (auto simp: NewPinnedMap_def split: if_splits)
  have "perCPU m'" if "EnsureExists env0 m w0 = (r, m', w1)" for r m' w1
    using EnsureExists_perCPU [where env = env0 and b = m and w = w0] that per by simp
  with per show ?thesis
    by (simp add: Update_def Get_def)
qed

theorem perCPU_Get_and_Update_panic_witness:
  "NewPinnedMap (Some \<lparr>RepinningEnabled = False\<rparr>) (exampleParams\<lparr>Type := ''percpu_hash''\<rparr>)
     = Inr ((exampleMap False)\<lparr>Type := ''percpu_hash'', perCPU := True\<rparr>) \<and>
   Contains ''percpu_hash'' ''percpu'' \<and>
   Update (traced exampleSys) ((exampleMap False)\<lparr>Type := ''percpu_hash'', perCPU := True\<rparr>)
       [1, 2] [255] (0, [])
     = (Inl (Panic ''Per-CPU operations not implemented''), (0, [])) \<and>
   Get (traced exampleSys) ((exampleMap False)\<lparr>Type := ''percpu_hash'', perCPU := True\<rparr>)
       [1, 2] (0, [])
     = (Inl (Panic ''Per-CPU operations not implemented''), (0, []))"
proof -
  let ?m = "(exampleMap False)\<lparr>Type := ''percpu_hash'', perCPU := True\<rparr>"
  have new: "NewPinnedMap (Some \<lparr>RepinningEnabled = False\<rparr>)
      (exampleParams\<lparr>Type := ''percpu_hash''\<rparr>) = Inr ?m"
    by (simp add: NewPinnedMap_def exampleParams_def exampleMap_def versionedName_def
        versionedStr_def FormatInt_def natDigits.simps digitChar_def BPF_OBJ_NAME_LEN_def)
  have marker: "Contains (Type (exampleParams\<lparr>Type := ''percpu_hash''\<rparr>)) ''percpu''"
    by simp
  from perCPU_Get_and_Update_panic [OF new marker, where env = exampleSys and k = "[1, 2]"
      and v = "[255]" and w = 0 and tr = "[]" and ?env0.0 = exampleSys and ?w0.0 = 0] new
  show ?thesis by simp
qed

text \<open>
  C9. \<open>Delete\<close> runs one command, \<^verbatim>\<open>bpftool map delete pinned\<close> with the versioned
  filename and, after \<open>key\<close>, one argument for each byte of the key: the decimal
  digits of its value. When the command fails with an exit error whose standard error
  text contains \<open>delete failed: No such file or directory\<close>, \<open>Delete\<close> returns
  \<^verbatim>\<open>os.ErrNotExist\<close>; any other failure is returned as it is; success returns nil.
\<close>

theorem Delete_maps_missing_key_to_not_found:
  assumes "cmd_Output env
             (''bpftool'' # ''map'' # ''delete'' # ''pinned'' # versionedFilename b # ''key'' #
              map (\<lambda>x. FormatInt (uint x)) k) w = ((out, err), w')"
  shows "(\<forall>stderr. err = Some (ExitError stderr) \<and>
            Contains stderr ''delete failed: No such file or directory'' \<longrightarrow>
              Delete env b k w = (Some ErrNotExist, w')) \<and>
         (\<forall>e. err = Some e \<and>
            \<not> (\<exists>stderr. e = ExitError stderr \<and>
                   Contains stderr ''delete failed: No such file or directory'') \<longrightarrow>
              Delete env b k w = (Some e, w')) \<and>
         (err = None \<longrightarrow> Delete env b k w = (None, w')) \<and>
         snd (Delete (traced env) b k (w, [])) =
           (w', [CallCommand ModeOutput
                  (''bpftool'' # ''map'' # ''delete'' # ''pinned'' # versionedFilename b # ''key'' #
                   map (\<lambda>x. FormatInt (uint x)) k)]) \<and>
         list_all2 (\<lambda>x s. list_all isDigit s \<and> decimalValue s = unat x)
           k (map (\<lambda>x. FormatInt (uint x)) k)"
proof (intro conjI allI impI)
  fix stderr
  assume "err = Some (ExitError stderr) \<and>
            Contains stderr ''delete failed: No such file or directory''"
  with assms show "Delete env b k w = (Some ErrNotExist, w')"
    by (simp add: Delete_def appendBytes_eq)
next
  fix e
  assume "err = Some e \<and>
            \<not> (\<exists>stderr. e = ExitError stderr \<and>
                   Contains stderr ''delete failed: No such file or directory'')"
  with assms show "Delete env b k w = (Some e, w')"
    by (cases e) (simp_all add: Delete_def appendBytes_eq)
next
  assume "err = None"
  with assms show "Delete env b k w = (None, w')"
    by (simp add: Delete_def appendBytes_eq)
next
  show "snd (Delete (traced env) b k (w, [])) =
           (w', [CallCommand ModeOutput
                  (''bpftool'' # ''map'' # ''delete'' # ''pinned'' # versionedFilename b # ''key'' #
                   map (\<lambda>x. FormatInt (uint x)) k)])"
  proof (cases err)
    case None
    with assms show ?thesis
      by (simp add: Delete_def appendBytes_eq)
  next
    case (Some e)
    with assms show ?thesis
      by (cases e) (simp_all add: Delete_def appendBytes_eq Let_def)
  qed
next
  have "list_all isDigit (FormatInt (uint x)) \<and> decimalValue (FormatInt (uint x)) = unat x"
    for x :: byte
  proof -
    have "int (decimalValue (FormatInt (uint x))) = uint x"
      by (rule FormatInt_nonneg) simp
    then have "decimalValue (FormatInt (uint x)) = nat (uint x)"
      by linarith
    then show ?thesis
      by (simp add: FormatInt_nonneg)
  qed
  then show "list_all2 (\<lambda>x s. list_all isDigit s \<and> decimalValue s = unat x)
           k (map (\<lambda>x. FormatInt (uint x)) k)"
    by (simp add: list_all2_conv_all_nth)
qed

theorem Delete_maps_missing_key_to_not_found_witness:
  "Delete (traced (outputFailsSys ''Error: delete failed: No such file or directory''))
       (exampleMap False) [10, 0, 255] (0, [])
     = (Some ErrNotExist,
        (1, [CallCommand ModeOutput
               [''bpftool'', ''map'', ''delete'', ''pinned'', ''/sys/fs/bpf/tc/globals/cali_v2'',
                ''key'', ''10'', ''0'', ''255'']])) \<and>
   Delete (outputFailsSys ''Error: permission denied'') (exampleMap False) [10, 0, 255] 0
     = (Some (ExitError ''Error: permission denied''), 1) \<and>
   Delete exampleSys (exampleMap False) [10, 0, 255] 0 = (None, 1)"
proof -
  let ?b = "exampleMap False"
  let ?k = "[10, 0, 255] :: byte list"
  let ?missing = "ExitError ''Error: delete failed: No such file or directory''"
  let ?denied = "ExitError ''Error: permission denied''"
  let ?env1 = "exampleSys\<lparr>cmd_Output := \<lambda>argv w. (([], Some ?missing), Suc w)\<rparr>"
  let ?env2 = "exampleSys\<lparr>cmd_Output := \<lambda>argv w. (([], Some ?denied), Suc w)\<rparr>"
  let ?argv = "''bpftool'' # ''map'' # ''delete'' # ''pinned'' # versionedFilename ?b # ''key'' #
      map (\<lambda>x. FormatInt (uint x)) ?k"
  have argv: "?argv = [''bpftool'', ''map'', ''delete'', ''pinned'',
      ''/sys/fs/bpf/tc/globals/cali_v2'', ''key'', ''10'', ''0'', ''255'']"
    by (simp add: example_eval)
  have c1: "cmd_Output (traced ?env1) ?argv (0, []) =
      (([], Some ?missing), (1, [CallCommand ModeOutput ?argv]))"
    and c1': "cmd_Output ?env1 ?argv 0 = (([], Some ?missing), 1)"
    and c2: "cmd_Output ?env2 ?argv 0 = (([], Some ?denied), 1)"
    by simp_all
  have c3: "cmd_Output exampleSys ?argv 0 = (([], None), 1)"
    by (simp add: exampleSys_def)
  have found: "Contains ''Error: delete failed: No such file or directory''
      ''delete failed: No such file or directory''"
    by simp
  have other: "\<not> Contains ''Error: permission denied'' ''delete failed: No such file or directory''"
    by simp
  from Delete_maps_missing_key_to_not_found [OF c1'] found
  have r1: "Delete ?env1 ?b ?k 0 = (Some ErrNotExist, 1)"
    and t1: "snd (Delete (traced ?env1) ?b ?k (0, [])) = (1, [CallCommand ModeOutput ?argv])"
    by simp_all
  from Delete_maps_missing_key_to_not_found [OF c1] found
  have r1': "fst (Delete (traced ?env1) ?b ?k (0, [])) = Some ErrNotExist"
    by simp
  from Delete_maps_missing_key_to_not_found [OF c2] other
  have r2: "Delete ?env2 ?b ?k 0 = (Some ?denied, 1)"
    by simp
  from Delete_maps_missing_key_to_not_found [OF c3]
  have r3: "Delete exampleSys ?b ?k 0 = (None, 1)"
    by simp
  from r1' t1 have "Delete (traced ?env1) ?b ?k (0, []) =
      (Some ErrNotExist, (1, [CallCommand ModeOutput ?argv]))"
    by (simp add: prod_eq_iff)
  with r2 r3 show ?thesis
    by (simp only: argv outputFailsSys_def)
qed


end
